theory Spec2Isabelle
  imports Complex_Main "HOL-Library.Multiset"
begin

section \<open>Strings, stopwords and dictionaries\<close>

text \<open>
  A Python \<open>str\<close> is a sequence of Unicode code points, so \<open>len\<close> counts code points
  and the Korean literals of \<open>recommender.py\<close> are written here by their code points.
  The weights and scores are Python floats. The sums and products of the scoring engine
  are modelled by exact real numbers: a statement below about a score is a statement about
  the exact arithmetic that the float computation approximates. Where the rounding of a
  float operation decides the result (the percentage, which is truncated to an integer, and
  the dependence of the common-term sum on the order of its additions) the operation is
  rounded as binary64 rounds it.
\<close>

type_synonym pystr = "nat list"

text \<open>\<open>self.STOPWORDS\<close> (recommender.py, lines 26--31), in the order of the source.\<close>

definition STOPWORDS_list :: "pystr list" where
  "STOPWORDS_list =
    [[44053, 51032], [49688, 50629], [54617, 51216], [44368, 49688],
     [49884, 54744], [44284, 51228], [54217, 44032], [52636, 49437],
     [51473, 44036, 44256, 49324], [44592, 47568, 44256, 49324], [51060, 54644],
     [44060, 50836], [47785, 54364], [48169, 48277], [48516, 49437],
     [54876, 50857], [51060, 47200], [49892, 49845], [49548, 44060],
     [44592, 52488], [51025, 50857], [51652, 54665], [44288, 47144],
     [54617, 45380], [51204, 44277], [54596, 49688], [49440, 53469],
     [54617, 49373], [49324, 50857, 51088], [48143], [51032], [46321],
     [45824, 54616, 50668]]"

definition STOPWORDS :: "pystr set" where
  "STOPWORDS = set STOPWORDS_list"

text \<open>The sentinel \<open>"none"\<close> of the double major and of an empty interest (U+C5C6 U+C74C).\<close>

definition NONE_SENTINEL :: pystr where
  "NONE_SENTINEL = [50630, 51020]"

text \<open>
  A Python \<open>dict\<close> keeps its keys in insertion order, and \<open>sorted\<close> and \<open>keys()\<close> read
  that order, so a dict is an association list with distinct keys. \<open>d[k] = v\<close> replaces
  the value of a key in place and appends a new key at the end.
\<close>

fun dict_set :: "('k \<times> 'v) list \<Rightarrow> 'k \<Rightarrow> 'v \<Rightarrow> ('k \<times> 'v) list" where
  "dict_set [] k v = [(k, v)]"
| "dict_set ((k', v') # d) k v =
     (if k' = k then (k', v) # d else (k', v') # dict_set d k v)"

definition dict_get :: "('k \<times> 'v) list \<Rightarrow> 'k \<Rightarrow> 'v \<Rightarrow> 'v" where
  "dict_get d k dflt = (case map_of d k of None \<Rightarrow> dflt | Some v \<Rightarrow> v)"

definition dict_keys :: "('k \<times> 'v) list \<Rightarrow> 'k list" where
  "dict_keys d = map fst d"

definition dict_has :: "('k \<times> 'v) list \<Rightarrow> 'k \<Rightarrow> bool" where
  "dict_has d k = (k \<in> set (dict_keys d))"

type_synonym profile = "(pystr \<times> real) list"

section \<open>Float operations\<close>

text \<open>
  A float operation returns the exact result rounded to the nearest binary64 number, ties
  to the even significand. \<open>fl\<close> is that rounding for a significand of 53 bits and an
  unbounded exponent (no overflow to infinity, no subnormal numbers):
  \<open>binary_exponent x\<close> is the \<open>e\<close> with \<open>2^e \<le> x < 2^(e+1)\<close>, and a positive \<open>x\<close> is
  rounded to the nearest multiple of \<open>2^(e-52)\<close>.
\<close>

definition round_half_even :: "real \<Rightarrow> int" where
  "round_half_even q =
     (let n = \<lfloor>q\<rfloor>; r = q - of_int n in
      if r < 1 / 2 \<or> (r = 1 / 2 \<and> even n) then n else n + 1)"

definition binary_exponent :: "real \<Rightarrow> int" where
  "binary_exponent x = \<lfloor>log 2 x\<rfloor>"

definition fl_pos :: "real \<Rightarrow> real" where
  "fl_pos x =
     (let u = 2 powr of_int (binary_exponent x - 52)
      in of_int (round_half_even (x / u)) * u)"

definition fl :: "real \<Rightarrow> real" where
  "fl x = (if x = 0 then 0 else if 0 < x then fl_pos x else - fl_pos (- x))"

section \<open>The concept graph and the course corpus\<close>

text \<open>
  The loaded \<open>networkx.DiGraph\<close>, as \<open>get_keywords_from_input\<close> reads it:
  \<open>node_labels\<close> is \<open>graph.nodes(data=True)\<close> with \<open>data.get('label', '')\<close> for each
  node, \<open>edge_list\<close> the edges in insertion order (a \<open>DiGraph\<close> holds an edge once).
  An absent graph (\<open>_load_ontology_data\<close> returned \<open>None\<close>) is \<open>None\<close>.
\<close>

record ontology =
  node_labels :: "(pystr \<times> pystr) list"
  edge_list :: "(pystr \<times> pystr) list"

definition successors :: "ontology \<Rightarrow> pystr \<Rightarrow> pystr list" where
  "successors G n = map snd (filter (\<lambda>e. fst e = n) (edge_list G))"

definition predecessors :: "ontology \<Rightarrow> pystr \<Rightarrow> pystr list" where
  "predecessors G n = map fst (filter (\<lambda>e. snd e = n) (edge_list G))"

definition node_label :: "ontology \<Rightarrow> pystr \<Rightarrow> pystr" where
  "node_label G n = dict_get (node_labels G) n []"

text \<open>
  A course of \<open>courses.json\<close>: every field is read with \<open>course.get(key, default)\<close>, so a
  missing key is \<open>None\<close> here and the default is applied where the field is read
  (\<open>keyword_weights\<close> is the field \<open>keywords\<close>).
\<close>

record course =
  course_name :: "pystr option"
  professor :: "pystr option"
  university :: "pystr option"
  description :: "pystr option"
  keyword_weights :: "profile option"

section \<open>The relevance collaborator and the expansion cache\<close>

text \<open>
  \<open>str.strip()\<close> removes the code points for which \<open>str.isspace\<close> holds;
  \<open>str.split(',')\<close> always returns at least one piece.
\<close>

definition is_space :: "nat \<Rightarrow> bool" where
  "is_space c = (c \<in> set [9, 10, 11, 12, 13, 28, 29, 30, 31, 32, 133, 160, 5760,
     8192, 8193, 8194, 8195, 8196, 8197, 8198, 8199, 8200, 8201, 8202,
     8232, 8233, 8239, 8287, 12288])"

definition strip :: "pystr \<Rightarrow> pystr" where
  "strip s = rev (dropWhile is_space (rev (dropWhile is_space s)))"

fun split_on :: "nat \<Rightarrow> pystr \<Rightarrow> pystr list" where
  "split_on c [] = [[]]"
| "split_on c (x # xs) =
     (if x = c then [] # split_on c xs
      else (case split_on c xs of [] \<Rightarrow> [[x]] | w # ws \<Rightarrow> (x # w) # ws))"

text \<open>
  What \<open>self.client.models.generate_content\<close> does for an expansion prompt: it raises,
  or it returns a response whose \<open>text\<close> is \<open>None\<close> or a string. The collaborator is a
  parameter \<open>llm\<close>; its first argument is the number of calls made before, so that two
  calls with the same keyword may answer differently.
\<close>

datatype gen_response = CallRaises | ResponseText "pystr option"

text \<open>
  The fields of \<open>CTWPFRecommender\<close> that the scoring path reads or writes. \<open>api_calls\<close> is
  not a field of the class: it counts the calls of \<open>generate_content\<close> made through
  \<open>self.client\<close>, which is how a stub collaborator would observe them.
\<close>

record recommender =
  client :: bool
  keyword_cache :: "(pystr \<times> pystr list) list"
  graph :: "ontology option"
  target_courses :: "course list"
  api_calls :: nat

definition expand_keyword_with_gemini ::
  "(nat \<Rightarrow> pystr \<Rightarrow> gen_response) \<Rightarrow> recommender \<Rightarrow> pystr \<Rightarrow> pystr list \<times> recommender" where
  "expand_keyword_with_gemini llm self keyword =
     (if \<not> client self then ([], self)
      else case map_of (keyword_cache self) keyword of
        Some cached \<Rightarrow> (cached, self)
      | None \<Rightarrow>
          if keyword \<in> STOPWORDS then ([], self)
          else
            (let called = self\<lparr>api_calls := Suc (api_calls self)\<rparr> in
             case llm (api_calls self) keyword of
               CallRaises \<Rightarrow> ([], called)
             | ResponseText None \<Rightarrow> ([], called)
             | ResponseText (Some t) \<Rightarrow>
                 if t = [] then ([], called)
                 else
                   (let related_words = map strip (split_on 44 t) in
                    (related_words,
                     called\<lparr>keyword_cache :=
                       dict_set (keyword_cache called) keyword related_words\<rparr>))))"

section \<open>The scoring engine\<close>

definition get_idf_weight :: "pystr \<Rightarrow> real" where
  "get_idf_weight word = (if length word > 2 then 1.5 else 1.0)"

text \<open>
  \<open>filtered_ct\<close> is a Python set; the loop over it runs in an order Python does not
  specify (it depends on the hashes of the strings). The model enumerates it in the order
  of the profile and adds exactly; the float sum of the source can depend, in its last
  bits, on the order in which the set is enumerated.
\<close>

definition filtered_ct :: "profile \<Rightarrow> profile \<Rightarrow> pystr list" where
  "filtered_ct student_dict course_keywords =
     filter (\<lambda>t. dict_has course_keywords t \<and> t \<notin> STOPWORDS) (dict_keys student_dict)"

definition ct_step :: "profile \<Rightarrow> profile \<Rightarrow> pystr \<Rightarrow> real \<times> pystr list \<Rightarrow> real \<times> pystr list" where
  "ct_step student_dict course_keywords t acc =
     (case acc of (ct_score, matches) \<Rightarrow>
        (ct_score + dict_get student_dict t 1.0 * dict_get course_keywords t 1.0 * get_idf_weight t,
         matches @ [t]))"

definition ct_loop :: "profile \<Rightarrow> profile \<Rightarrow> real \<times> pystr list" where
  "ct_loop student_dict course_keywords =
     fold (ct_step student_dict course_keywords) (filtered_ct student_dict course_keywords) (0, [])"

text \<open>
  The same loop (lines 181--187) with its float operations rounded:
  \<open>ct_score += (s_weight * c_weight * self.get_idf_weight(term))\<close> is two multiplications
  and one addition. The order in which Python enumerates the set \<open>filtered_ct\<close> depends on
  the hashes of the strings (randomised for each process) and on how the set was built, so
  it is an argument \<open>order\<close> here, an enumeration of the set.
\<close>

definition ct_step_float ::
  "profile \<Rightarrow> profile \<Rightarrow> pystr \<Rightarrow> real \<times> pystr list \<Rightarrow> real \<times> pystr list" where
  "ct_step_float student_dict course_keywords t acc =
     (case acc of (ct_score, matches) \<Rightarrow>
        (fl (ct_score
             + fl (fl (dict_get student_dict t 1.0 * dict_get course_keywords t 1.0)
                   * get_idf_weight t)),
         matches @ [t]))"

definition ct_loop_float :: "pystr list \<Rightarrow> profile \<Rightarrow> profile \<Rightarrow> real \<times> pystr list" where
  "ct_loop_float order student_dict course_keywords =
     fold (ct_step_float student_dict course_keywords) order (0, [])"

definition enumerates :: "pystr list \<Rightarrow> pystr list \<Rightarrow> bool" where
  "enumerates order ts = (distinct order \<and> set order = set ts)"

text \<open>The annotation \<open>f"{e_term}(\<leftarrow>{s_term})"\<close>; the arrow is U+2190.\<close>

definition annotate :: "pystr \<Rightarrow> pystr \<Rightarrow> pystr" where
  "annotate e_term s_term = e_term @ [40, 8592] @ s_term @ [41]"

text \<open>
  \<open>sorted(student_dict.items(), key=lambda x: x[1], reverse=True)[:5]\<close>: Python's sort is
  stable also with \<open>reverse=True\<close>, which is the stable ascending sort by the negated weight.
\<close>

definition sorted_student_terms :: "profile \<Rightarrow> (pystr \<times> real) list" where
  "sorted_student_terms student_dict = take 5 (sort_key (\<lambda>x. - snd x) student_dict)"

definition wp_inner_step ::
  "profile \<Rightarrow> pystr \<Rightarrow> real \<Rightarrow> pystr \<Rightarrow> real \<times> pystr list \<Rightarrow> real \<times> pystr list" where
  "wp_inner_step course_keywords s_term s_weight e_term acc =
     (case acc of (wp_score, matches) \<Rightarrow>
        if dict_has course_keywords e_term then
          (if e_term \<in> STOPWORDS \<or> e_term \<in> set matches then (wp_score, matches)
           else (wp_score + s_weight * 0.8 * dict_get course_keywords e_term 1.0,
                 matches @ [annotate e_term s_term]))
        else (wp_score, matches))"

definition wp_step ::
  "(nat \<Rightarrow> pystr \<Rightarrow> gen_response) \<Rightarrow> profile \<Rightarrow> pystr \<times> real \<Rightarrow>
   (real \<times> pystr list) \<times> recommender \<Rightarrow> (real \<times> pystr list) \<times> recommender" where
  "wp_step llm course_keywords st acc =
     (case st of (s_term, s_weight) \<Rightarrow>
      case acc of (tally, self) \<Rightarrow>
        if s_term \<in> STOPWORDS then (tally, self)
        else
          (case expand_keyword_with_gemini llm self s_term of (expanded, self') \<Rightarrow>
             (fold (wp_inner_step course_keywords s_term s_weight) expanded tally, self')))"

definition wp_loop ::
  "(nat \<Rightarrow> pystr \<Rightarrow> gen_response) \<Rightarrow> recommender \<Rightarrow> profile \<Rightarrow> profile \<Rightarrow>
   pystr list \<Rightarrow> (real \<times> pystr list) \<times> recommender" where
  "wp_loop llm self student_dict course_keywords matches =
     fold (wp_step llm course_keywords) (sorted_student_terms student_dict) ((0, matches), self)"

definition ct_score_of :: "profile \<Rightarrow> profile \<Rightarrow> real" where
  "ct_score_of student_dict course_keywords = fst (ct_loop student_dict course_keywords)"

definition wp_score_of ::
  "(nat \<Rightarrow> pystr \<Rightarrow> gen_response) \<Rightarrow> recommender \<Rightarrow> profile \<Rightarrow> profile \<Rightarrow> real" where
  "wp_score_of llm self student_dict course_keywords =
     fst (fst (wp_loop llm self student_dict course_keywords
                 (snd (ct_loop student_dict course_keywords))))"

text \<open>
  \<open>calculate_ctwp_score\<close> returns the final score and \<open>list(set(matches))\<close>, whose order
  Python does not specify (the model keeps the first occurrences in order); the model
  returns the receiver too, whose cache the expansions may have extended.
\<close>

definition calculate_ctwp_score ::
  "(nat \<Rightarrow> pystr \<Rightarrow> gen_response) \<Rightarrow> recommender \<Rightarrow> profile \<Rightarrow> profile \<Rightarrow>
   (real \<times> pystr list) \<times> recommender" where
  "calculate_ctwp_score llm self student_dict course_keywords =
     (case ct_loop student_dict course_keywords of (ct_score, matches) \<Rightarrow>
      case wp_loop llm self student_dict course_keywords matches of
        ((wp_score, matches'), self') \<Rightarrow>
          (let final_score = 0.5 * ct_score + 0.5 * wp_score
           in ((final_score * 5.0, rev (remdups (rev matches'))), self')))"

section \<open>The profile builder\<close>

text \<open>\<open>sub in s\<close> on strings is containment as a contiguous substring.\<close>

fun starts_with :: "'a list \<Rightarrow> 'a list \<Rightarrow> bool" where
  "starts_with [] s = True"
| "starts_with (x # sub) [] = False"
| "starts_with (x # sub) (y # s) = (x = y \<and> starts_with sub s)"

fun str_contains :: "'a list \<Rightarrow> 'a list \<Rightarrow> bool" where
  "str_contains sub [] = (sub = [])"
| "str_contains sub (y # s) = (starts_with sub (y # s) \<or> str_contains sub s)"

text \<open>\<open>s.replace(" ", "")\<close>.\<close>

definition remove_spaces :: "pystr \<Rightarrow> pystr" where
  "remove_spaces s = filter (\<lambda>c. c \<noteq> 32) s"

text \<open>
  \<open>input_items\<close> (lines 80--84): the major always, the double major when it is truthy
  (not empty) and not the sentinel, then the history courses.
\<close>

definition input_items_of :: "pystr \<Rightarrow> pystr \<Rightarrow> pystr list \<Rightarrow> pystr list" where
  "input_items_of major double_major history_courses =
     [major]
     @ (if double_major \<noteq> [] \<and> double_major \<noteq> NONE_SENTINEL then [double_major] else [])
     @ history_courses"

text \<open>
  \<open>if interest: keywords[interest] = 1.0\<close> on the empty dict: the interest is \<open>None\<close> or
  a string, and the empty string is falsy.
\<close>

definition interest_given :: "pystr option \<Rightarrow> bool" where
  "interest_given interest = (case interest of None \<Rightarrow> False | Some i \<Rightarrow> i \<noteq> [])"

definition seed_interest :: "pystr option \<Rightarrow> profile" where
  "seed_interest interest =
     (case interest of None \<Rightarrow> [] | Some i \<Rightarrow> if i \<noteq> [] then dict_set [] i 1.0 else [])"

definition target_nodes :: "ontology \<Rightarrow> pystr \<Rightarrow> pystr list" where
  "target_nodes G item =
     map fst (filter (\<lambda>nd. str_contains (remove_spaces item) (remove_spaces (snd nd)))
                (node_labels G))"

definition neighbor_step :: "ontology \<Rightarrow> pystr \<Rightarrow> profile \<Rightarrow> profile" where
  "neighbor_step G neighbor kw =
     (let neighbor_label = node_label G neighbor in
      if neighbor_label \<noteq> [] \<and> neighbor_label \<notin> STOPWORDS
      then dict_set kw neighbor_label (dict_get kw neighbor_label 0 + 0.5)
      else kw)"

definition root_step :: "ontology \<Rightarrow> pystr \<Rightarrow> profile \<Rightarrow> profile" where
  "root_step G root_node kw =
     fold (neighbor_step G) (successors G root_node @ predecessors G root_node) kw"

definition item_step :: "ontology \<Rightarrow> pystr \<Rightarrow> profile \<Rightarrow> profile" where
  "item_step G item kw = fold (root_step G) (target_nodes G item) (dict_set kw item 1.0)"

definition get_keywords_from_input ::
  "ontology option \<Rightarrow> pystr \<Rightarrow> pystr \<Rightarrow> pystr list \<Rightarrow> pystr option \<Rightarrow> profile" where
  "get_keywords_from_input g major double_major history_courses interest =
     (let input_items = input_items_of major double_major history_courses;
          kw = seed_interest interest
      in case g of
           None \<Rightarrow> fold (\<lambda>item kw'. dict_set kw' item 1.0) input_items kw
         | Some G \<Rightarrow> fold (item_step G) input_items kw)"

section \<open>The relevance judgement\<close>

text \<open>
  What the \<open>try\<close> block of \<open>evaluate_relevance_with_gemini\<close> meets: the call raises, or
  \<open>json.loads(response.text)\<close> raises (the text is \<open>None\<close> or is not JSON), or it yields
  a JSON value. JSON numbers are reals here, as floats are.
\<close>

datatype json =
  JNull | JBool bool | JNum real | JStr pystr | JArr "json list" | JObj "(pystr \<times> json) list"

datatype judge_response = JudgeRaises | NotJson | Parsed json

datatype py_error = APIError | JSONDecodeError | AttributeError | TypeError

record student_info =
  profile_keywords :: pystr
  interest_text :: pystr

definition KEY_score :: pystr where
  "KEY_score = [115, 99, 111, 114, 101]"

definition KEY_reason :: pystr where
  "KEY_reason = [114, 101, 97, 115, 111, 110]"

text \<open>The three reason strings of the source: "API error", "cannot analyse", "AI analysis failed".\<close>

definition REASON_api_error :: pystr where
  "REASON_api_error = [65, 80, 73, 32, 50724, 47448]"

definition REASON_unavailable :: pystr where
  "REASON_unavailable = [48516, 49437, 32, 48520, 44032]"

definition REASON_failed :: pystr where
  "REASON_failed = [65, 73, 32, 48516, 49437, 32, 49892, 54056]"

text \<open>
  The body of the \<open>try\<close> (lines 165--171). \<open>result.get\<close> exists only on a dict: for any
  other JSON value it raises \<open>AttributeError\<close>.
\<close>

definition evaluate_try ::
  "(nat \<Rightarrow> student_info \<Rightarrow> course \<Rightarrow> judge_response) \<Rightarrow> nat \<Rightarrow> student_info \<Rightarrow> course \<Rightarrow>
   py_error + (json \<times> json)" where
  "evaluate_try judge n info course_info =
     (case judge n info course_info of
        JudgeRaises \<Rightarrow> Inl APIError
      | NotJson \<Rightarrow> Inl JSONDecodeError
      | Parsed (JObj result) \<Rightarrow>
          Inr (dict_get result KEY_score (JNum 0), dict_get result KEY_reason (JStr REASON_unavailable))
      | Parsed _ \<Rightarrow> Inl AttributeError)"

definition evaluate_relevance_with_gemini ::
  "(nat \<Rightarrow> student_info \<Rightarrow> course \<Rightarrow> judge_response) \<Rightarrow> recommender \<Rightarrow> student_info \<Rightarrow> course \<Rightarrow>
   (json \<times> json) \<times> recommender" where
  "evaluate_relevance_with_gemini judge self info course_info =
     (if \<not> client self then ((JNum 0, JStr REASON_api_error), self)
      else
        (let called = self\<lparr>api_calls := Suc (api_calls self)\<rparr> in
         case evaluate_try judge (api_calls self) info course_info of
           Inl e \<Rightarrow> ((JNum 0, JStr REASON_failed), called)
         | Inr r \<Rightarrow> (r, called)))"

section \<open>The ranking aggregator\<close>

fun join :: "pystr \<Rightarrow> pystr list \<Rightarrow> pystr" where
  "join sep [] = []"
| "join sep [x] = x"
| "join sep (x # y # ys) = x @ sep @ join sep (y # ys)"

definition UNKNOWN :: pystr where
  "UNKNOWN = [85, 110, 107, 110, 111, 119, 110]"

definition OTHER_UNIVERSITY :: pystr where
  "OTHER_UNIVERSITY = [53440, 45824, 54617]"

text \<open>One row of the data frame before the percentage column is added.\<close>

record recommendation =
  rec_course_name :: pystr
  rec_professor :: pystr
  rec_university :: pystr
  total_score :: real
  ctwp_score :: real
  ai_score :: json
  ai_reason :: json
  matched_keywords :: pystr

text \<open>
  \<open>ctwp_score + ai_score\<close>: the left operand is a float; a JSON number or boolean on the
  right is added, anything else (string, null, list, object) raises \<open>TypeError\<close>, which
  \<open>run_analysis\<close> does not catch.
\<close>

definition float_add :: "real \<Rightarrow> json \<Rightarrow> py_error + real" where
  "float_add a j =
     (case j of
        JNum x \<Rightarrow> Inr (a + x)
      | JBool b \<Rightarrow> Inr (a + (if b then 1 else 0))
      | _ \<Rightarrow> Inl TypeError)"

definition make_record ::
  "course \<Rightarrow> real \<Rightarrow> real \<Rightarrow> json \<Rightarrow> json \<Rightarrow> pystr list \<Rightarrow> recommendation" where
  "make_record c total_sum ctwp score reason matches =
     \<lparr>rec_course_name = (case course_name c of None \<Rightarrow> UNKNOWN | Some n \<Rightarrow> n),
      rec_professor = (case professor c of None \<Rightarrow> UNKNOWN | Some n \<Rightarrow> n),
      rec_university = (case university c of None \<Rightarrow> OTHER_UNIVERSITY | Some n \<Rightarrow> n),
      total_score = total_sum,
      ctwp_score = ctwp,
      ai_score = score,
      ai_reason = reason,
      matched_keywords =
        (if matches \<noteq> [] then join [44, 32] (take 5 matches) else NONE_SENTINEL)\<rparr>"

text \<open>The body of the loop over \<open>self.target_courses\<close> (lines 220--244).\<close>

definition score_course ::
  "(nat \<Rightarrow> pystr \<Rightarrow> gen_response) \<Rightarrow> (nat \<Rightarrow> student_info \<Rightarrow> course \<Rightarrow> judge_response) \<Rightarrow>
   profile \<Rightarrow> student_info \<Rightarrow> course \<Rightarrow> recommender \<Rightarrow> py_error + (recommendation \<times> recommender)" where
  "score_course llm judge student_profile info c self =
     (let course_keywords = (case keyword_weights c of None \<Rightarrow> [] | Some k \<Rightarrow> k) in
      (case calculate_ctwp_score llm self student_profile course_keywords of
         ((ctwp, matches), self1) \<Rightarrow>
           (case evaluate_relevance_with_gemini judge self1 info c of
              ((score, reason), self2) \<Rightarrow>
                (case float_add ctwp score of
                   Inl e \<Rightarrow> Inl e
                 | Inr total_sum \<Rightarrow>
                     Inr (make_record c total_sum ctwp score reason matches, self2)))))"

fun score_courses ::
  "(nat \<Rightarrow> pystr \<Rightarrow> gen_response) \<Rightarrow> (nat \<Rightarrow> student_info \<Rightarrow> course \<Rightarrow> judge_response) \<Rightarrow>
   profile \<Rightarrow> student_info \<Rightarrow> course list \<Rightarrow> recommender \<Rightarrow> recommendation list \<Rightarrow>
   py_error + (recommendation list \<times> recommender)" where
  "score_courses llm judge student_profile info [] self recommendations =
     Inr (recommendations, self)"
| "score_courses llm judge student_profile info (c # cs) self recommendations =
     (case score_course llm judge student_profile info c self of
        Inl e \<Rightarrow> Inl e
      | Inr (r, self') \<Rightarrow>
          score_courses llm judge student_profile info cs self' (recommendations @ [r]))"

text \<open>\<open>df[total].max()\<close>, which the source takes of a non-empty frame only.\<close>

definition max_score_of :: "recommendation list \<Rightarrow> real" where
  "max_score_of recs =
     (case recs of [] \<Rightarrow> 0 | r # rs \<Rightarrow> fold max (map total_score rs) (total_score r))"

text \<open>\<open>astype(int)\<close> on a float column truncates toward zero.\<close>

definition astype_int :: "real \<Rightarrow> int" where
  "astype_int x = (if x < 0 then \<lceil>x\<rceil> else \<lfloor>x\<rfloor>)"

text \<open>
  Lines 249--254: the percentage column, paired with each row. \<open>(df[total] / max_score) * 95\<close>
  is two float operations, a division and a multiplication, each rounded.
\<close>

definition add_suitability :: "recommendation list \<Rightarrow> (recommendation \<times> int) list" where
  "add_suitability recs =
     (let max_score = max_score_of recs in
      if max_score > 0
      then map (\<lambda>r. (r, astype_int (fl (fl (total_score r / max_score) * 95)))) recs
      else map (\<lambda>r. (r, 0)) recs)"

text \<open>
  Lines 246--256. \<open>sort_values(..., ascending=False)\<close> orders by decreasing total score;
  pandas does not specify the order of rows with equal scores, the model keeps their
  order. \<open>head(5)\<close> keeps the first five rows.
\<close>

definition rank_rows :: "recommendation list \<Rightarrow> (recommendation \<times> int) list" where
  "rank_rows recs =
     (if recs \<noteq> []
      then take 5 (sort_key (\<lambda>row. - total_score (fst row)) (add_suitability recs))
      else [])"

definition run_analysis ::
  "(nat \<Rightarrow> pystr \<Rightarrow> gen_response) \<Rightarrow> (nat \<Rightarrow> student_info \<Rightarrow> course \<Rightarrow> judge_response) \<Rightarrow>
   recommender \<Rightarrow> pystr \<Rightarrow> pystr \<Rightarrow> pystr list \<Rightarrow> pystr option \<Rightarrow>
   py_error + (((recommendation \<times> int) list \<times> profile) \<times> recommender)" where
  "run_analysis llm judge self major double_major history interest =
     (let student_profile = get_keywords_from_input (graph self) major double_major history interest;
          info = \<lparr>profile_keywords = join [44, 32] (take 10 (dict_keys student_profile)),
                  interest_text = (case interest of
                                     None \<Rightarrow> NONE_SENTINEL
                                   | Some i \<Rightarrow> if i \<noteq> [] then i else NONE_SENTINEL)\<rparr>
      in case score_courses llm judge student_profile info (target_courses self) self [] of
           Inl e \<Rightarrow> Inl e
         | Inr (recs, self') \<Rightarrow> Inr ((rank_rows recs, student_profile), self'))"

section \<open>The statements of the specification\<close>

text \<open>
  The profile of the degraded mode as the specification words it: the major, the double
  major unless it is the sentinel, the history courses, and the interest if given.
\<close>

definition seed_terms_claimed :: "pystr \<Rightarrow> pystr \<Rightarrow> pystr list \<Rightarrow> pystr option \<Rightarrow> pystr set" where
  "seed_terms_claimed major double_major history_courses interest =
     {major} \<union> (if double_major = NONE_SENTINEL then {} else {double_major})
     \<union> set history_courses
     \<union> (case interest of None \<Rightarrow> {} | Some i \<Rightarrow> if i \<noteq> [] then {i} else {})"

text \<open>
  The labels one hop away from the seed terms: for every seed term, every node whose label
  contains it, every successor and predecessor of that node.
\<close>

definition one_hop_labels :: "ontology \<Rightarrow> pystr list \<Rightarrow> pystr list" where
  "one_hop_labels G items =
     concat (map (\<lambda>item. concat (map (\<lambda>root_node.
         map (node_label G) (successors G root_node @ predecessors G root_node))
       (target_nodes G item))) items)"

text \<open>
  The propagated score as the specification words it. \<open>expansions_of\<close> pairs each
  selected term with the terms \<open>expand\<close> returns for it, the calls made in order;
  \<open>wp_term\<close> is the sum, over the returned terms that are course keywords, are not
  stopwords and are not common-term matches, of \<open>profile[s] * 0.8 * courseKeywords[e]\<close>.
\<close>

fun expansions_of ::
  "(nat \<Rightarrow> pystr \<Rightarrow> gen_response) \<Rightarrow> recommender \<Rightarrow> (pystr \<times> real) list \<Rightarrow>
   ((pystr \<times> real) \<times> pystr list) list" where
  "expansions_of llm self [] = []"
| "expansions_of llm self (st # sts) =
     (case expand_keyword_with_gemini llm self (fst st) of
        (expanded, self') \<Rightarrow> (st, expanded) # expansions_of llm self' sts)"

definition wp_term :: "profile \<Rightarrow> profile \<Rightarrow> (pystr \<times> real) \<times> pystr list \<Rightarrow> real" where
  "wp_term student_dict course_keywords se =
     sum_list (map (\<lambda>e. dict_get student_dict (fst (fst se)) 0 * 0.8 * dict_get course_keywords e 0)
       (filter (\<lambda>e. dict_has course_keywords e \<and> e \<notin> STOPWORDS
                     \<and> e \<notin> set (filtered_ct student_dict course_keywords)) (snd se)))"

definition wp_sum ::
  "(nat \<Rightarrow> pystr \<Rightarrow> gen_response) \<Rightarrow> recommender \<Rightarrow> profile \<Rightarrow> profile \<Rightarrow>
   (pystr \<times> real) list \<Rightarrow> real" where
  "wp_sum llm self student_dict course_keywords selected =
     sum_list (map (wp_term student_dict course_keywords) (expansions_of llm self selected))"

text \<open>
  Two selections of profile terms: the five heaviest terms that are not stopwords (the
  specification's "top 5 by weight, excluding stopwords"), and the five heaviest terms
  with the stopwords among them left out.
\<close>

definition top5_excluding_stopwords :: "profile \<Rightarrow> (pystr \<times> real) list" where
  "top5_excluding_stopwords student_dict =
     take 5 (filter (\<lambda>st. fst st \<notin> STOPWORDS) (sort_key (\<lambda>x. - snd x) student_dict))"

definition top5_then_skip_stopwords :: "profile \<Rightarrow> (pystr \<times> real) list" where
  "top5_then_skip_stopwords student_dict =
     filter (\<lambda>st. fst st \<notin> STOPWORDS) (take 5 (sort_key (\<lambda>x. - snd x) student_dict))"

text \<open>The arrow of an annotation, and what the match list holds during the second loop.\<close>

definition ARROW :: nat where
  "ARROW = 8592"

definition matches_inv :: "pystr list \<Rightarrow> pystr list \<Rightarrow> bool" where
  "matches_inv cts ms = (set cts \<subseteq> set ms \<and> (\<forall>m \<in> set ms. m \<in> set cts \<or> ARROW \<in> set m))"

text \<open>
  The percentage as the specification words it: the floor of the share of the best total
  score times 95 (the quotient and the product taken exactly), or 0 when the best total is
  not positive, and within 0 and 95.
\<close>

definition suitability_claimed :: "recommendation list \<Rightarrow> recommendation \<times> int \<Rightarrow> bool" where
  "suitability_claimed recs row =
     (let maxTotal = Max (total_score ` set recs) in
      snd row = (if maxTotal > 0 then \<lfloor>total_score (fst row) / maxTotal * 95\<rfloor> else 0)
      \<and> 0 \<le> snd row \<and> snd row \<le> 95)"

section \<open>Concrete inputs\<close>

text \<open>Three terms that are not stopwords and one that is (U+BD84 U+C11D, "analysis").\<close>

definition marketing :: pystr where
  "marketing = [109, 97, 114, 107, 101, 116, 105, 110, 103]"

definition brand :: pystr where
  "brand = [98, 114, 97, 110, 100]"

definition sales :: pystr where
  "sales = [115, 97, 108, 101, 115]"

definition analysis_stopword :: pystr where
  "analysis_stopword = [48516, 49437]"

text \<open>
  Collaborators: one whose response has no text, one that answers \<open>"brand, sales"\<close> for
  \<open>"marketing"\<close> only, one that answers a term and the annotation of that term, and a
  judge whose answer is a JSON array.
\<close>

definition silent_llm :: "nat \<Rightarrow> pystr \<Rightarrow> gen_response" where
  "silent_llm n keyword = ResponseText None"

definition brand_llm :: "nat \<Rightarrow> pystr \<Rightarrow> gen_response" where
  "brand_llm n keyword =
     (if keyword = marketing then ResponseText (Some (brand @ [44, 32] @ sales))
      else ResponseText None)"

definition echo_llm :: "nat \<Rightarrow> pystr \<Rightarrow> gen_response" where
  "echo_llm n keyword = ResponseText (Some (brand @ [44] @ annotate brand keyword))"

definition array_judge :: "nat \<Rightarrow> student_info \<Rightarrow> course \<Rightarrow> judge_response" where
  "array_judge n info c = Parsed (JArr [])"

text \<open>
  Recommenders: a fresh one with a client, no graph and no course; the same without a
  client; and the latter over a corpus of courses whose only keyword is \<open>"marketing"\<close>.
\<close>

definition fresh_recommender :: recommender where
  "fresh_recommender =
     \<lparr>client = True, keyword_cache = [], graph = None, target_courses = [], api_calls = 0\<rparr>"

definition offline_recommender :: recommender where
  "offline_recommender = fresh_recommender\<lparr>client := False\<rparr>"

definition course_weighing :: "real \<Rightarrow> course" where
  "course_weighing w =
     \<lparr>course_name = Some marketing, professor = None, university = None, description = None,
      keyword_weights = Some [(marketing, w)]\<rparr>"

definition corpus_recommender :: "real list \<Rightarrow> recommender" where
  "corpus_recommender ws = offline_recommender\<lparr>target_courses := map course_weighing ws\<rparr>"

text \<open>The row that the loop builds for such a course when there is no client.\<close>

definition scored :: "real \<Rightarrow> recommendation" where
  "scored w =
     make_record (course_weighing w) (3.75 * w) (3.75 * w) (JNum 0) (JStr REASON_api_error)
       [marketing]"

text \<open>
  Three terms of two code points (\<open>"ai"\<close>, \<open>"ux"\<close>, \<open>"db"\<close>), the binary64 numbers that
  the literals \<open>0.2\<close>, \<open>0.3\<close> and \<open>0.1\<close> denote, a profile of the three terms at weight
  1.0, and a course keyword mapping in two orders of its entries.
\<close>

definition term_ai :: pystr where
  "term_ai = [97, 105]"

definition term_ux :: pystr where
  "term_ux = [117, 120]"

definition term_db :: pystr where
  "term_db = [100, 98]"

definition float_0_2 :: real where
  "float_0_2 = 3602879701896397 / 18014398509481984"

definition float_0_3 :: real where
  "float_0_3 = 5404319552844595 / 18014398509481984"

definition float_0_1 :: real where
  "float_0_1 = 3602879701896397 / 36028797018963968"

definition profile3 :: profile where
  "profile3 = [(term_ai, 1), (term_ux, 1), (term_db, 1)]"

definition keywords3 :: profile where
  "keywords3 = [(term_ai, float_0_2), (term_ux, float_0_3), (term_db, float_0_1)]"

definition keywords3_rotated :: profile where
  "keywords3_rotated = [(term_ux, float_0_3), (term_db, float_0_1), (term_ai, float_0_2)]"

text \<open>A profile of six terms of weight 1, the first a stopword; a student summary; a graph.\<close>

definition profile6 :: profile where
  "profile6 =
     [(analysis_stopword, 1), ([97], 1), ([98], 1), ([99], 1), ([100], 1), (marketing, 1)]"


definition sample_graph :: ontology where
  "sample_graph =
     \<lparr>node_labels = [([110, 49], marketing), ([110, 50], brand), ([110, 51], analysis_stopword),
                     ([110, 52], [])],
      edge_list = [([110, 49], [110, 50]), ([110, 51], [110, 49]), ([110, 49], [110, 52])]\<rparr>"

section \<open>Evaluating the concrete inputs\<close>

lemmas word_defs = marketing_def brand_def sales_def analysis_stopword_def NONE_SENTINEL_def

lemmas eval_strings = word_defs STOPWORDS_def STOPWORDS_list_def strip_def is_space_def

lemmas eval_dict = dict_get_def dict_keys_def dict_has_def

lemmas eval_expand = expand_keyword_with_gemini_def fresh_recommender_def offline_recommender_def
  brand_llm_def Let_def

lemma stop_facts:
  "marketing \<notin> STOPWORDS" "brand \<notin> STOPWORDS" "sales \<notin> STOPWORDS"
  "analysis_stopword \<in> STOPWORDS"
  by (simp_all add: word_defs STOPWORDS_def STOPWORDS_list_def)

section \<open>Dictionaries\<close>

lemma map_of_dict_set: "map_of (dict_set d k v) k' = (if k' = k then Some v else map_of d k')"
  by (induction d) auto

lemma dict_keys_dict_set:
  "dict_keys (dict_set d k v) = (if k \<in> set (dict_keys d) then dict_keys d else dict_keys d @ [k])"
  unfolding dict_keys_def by (induction d) (force split: if_splits)+

lemma keys_dict_set: "set (dict_keys (dict_set d k v)) = insert k (set (dict_keys d))"
  by (auto simp: dict_keys_dict_set)

lemma distinct_dict_set: "distinct (dict_keys d) \<Longrightarrow> distinct (dict_keys (dict_set d k v))"
  by (simp add: dict_keys_dict_set)

lemma set_dict_set: "set (dict_set d k v) \<subseteq> insert (k, v) (set d)"
  by (induction d) (auto split: if_splits)

lemma dict_get_mem: "distinct (dict_keys p) \<Longrightarrow> (s, w) \<in> set p \<Longrightarrow> dict_get p s d = w"
  by (simp add: dict_keys_def dict_get_def)

section \<open>The worked example of the scoring engine\<close>

lemma wp_inner_all_matched:
  "\<forall>k \<in> set (dict_keys course_keywords). k \<in> set matches \<Longrightarrow>
   fold (wp_inner_step course_keywords s_term s_weight) expanded (wp_score, matches)
     = (wp_score, matches)"
  by (induction expanded) (auto simp: wp_inner_step_def dict_has_def)

lemma ct_marketing: "ct_loop [(marketing, 1)] [(marketing, 1)] = (1.5, [marketing])"
  by (simp add: ct_loop_def filtered_ct_def dict_keys_def dict_has_def stop_facts
      ct_step_def dict_get_def get_idf_weight_def) (simp add: marketing_def)

lemma wp_marketing:
  "wp_loop llm self [(marketing, 1)] [(marketing, 1)] [marketing]
     = ((0, [marketing]), snd (expand_keyword_with_gemini llm self marketing))"
  by (simp add: wp_loop_def sorted_student_terms_def wp_step_def stop_facts
      wp_inner_all_matched dict_keys_def split: prod.splits)

text \<open>
  C5. For the profile \<open>{"marketing": 1.0}\<close> and the course keywords \<open>{"marketing": 1.0}\<close>
  the common-term score is \<open>1.0 * 1.0 * 1.5 = 1.5\<close>, the propagated score is \<open>0\<close> and the
  final score is \<open>0.5 * 1.5 * 5.0 = 3.75\<close>. This holds for every collaborator and every
  state of the recommender: the only course keyword is already a common-term match, so
  no expanded term can match.
\<close>

theorem marketing_example:
  "ct_score_of [(marketing, 1.0)] [(marketing, 1.0)] = 1.0 * 1.0 * 1.5
   \<and> wp_score_of llm self [(marketing, 1.0)] [(marketing, 1.0)] = 0
   \<and> fst (fst (calculate_ctwp_score llm self [(marketing, 1.0)] [(marketing, 1.0)]))
       = 0.5 * 1.5 * 5.0
   \<and> fst (fst (calculate_ctwp_score llm self [(marketing, 1.0)] [(marketing, 1.0)])) = 3.75"
  by (simp add: ct_score_of_def wp_score_of_def calculate_ctwp_score_def ct_marketing wp_marketing)

section \<open>The expansion cache\<close>

lemma expand_marketing:
  "expand_keyword_with_gemini brand_llm fresh_recommender marketing
     = ([brand, sales],
        fresh_recommender\<lparr>api_calls := 1, keyword_cache := [(marketing, [brand, sales])]\<rparr>)"
  by (simp add: eval_expand eval_strings)

text \<open>
  The statement of C4 fails when the collaborator's response has no text: nothing is
  cached, and the second call for the same term calls the collaborator again, so two
  calls of \<open>expand\<close> make two calls of the collaborator.
\<close>

theorem expand_twice_counterexample:
  "\<not> api_calls (snd (expand_keyword_with_gemini silent_llm
        (snd (expand_keyword_with_gemini silent_llm fresh_recommender marketing)) marketing))
      \<le> api_calls fresh_recommender + 1"
  by (simp add: expand_keyword_with_gemini_def fresh_recommender_def silent_llm_def stop_facts)

text \<open>
  A call that reaches the collaborator and gets an exception or no text returns the empty
  list, counts one call and leaves the cache as it was, so the next call for the same term
  reaches the collaborator again.
\<close>

lemma expand_failure_not_cached:
  assumes "client self" and "map_of (keyword_cache self) keyword = None"
    and "keyword \<notin> STOPWORDS"
    and "llm (api_calls self) keyword = CallRaises
         \<or> llm (api_calls self) keyword = ResponseText None
         \<or> llm (api_calls self) keyword = ResponseText (Some [])"
  shows "expand_keyword_with_gemini llm self keyword
           = ([], self\<lparr>api_calls := Suc (api_calls self)\<rparr>)"
  using assms by (auto simp: expand_keyword_with_gemini_def Let_def)

text \<open>
  C4, amended. When the first call of \<open>expand\<close> for a term returns a non-empty list (from
  the cache or from a response with text), the second call for the same term is a cache
  hit: it returns the same list and leaves the recommender, and so the count of
  collaborator calls, as the first call left it; the two calls together call the
  collaborator at most once.
\<close>

theorem expand_twice_cache_hit:
  assumes "fst (expand_keyword_with_gemini llm self keyword) \<noteq> []"
  shows "expand_keyword_with_gemini llm (snd (expand_keyword_with_gemini llm self keyword)) keyword
           = expand_keyword_with_gemini llm self keyword
       \<and> api_calls (snd (expand_keyword_with_gemini llm
             (snd (expand_keyword_with_gemini llm self keyword)) keyword)) \<le> api_calls self + 1"
  using assms
  by (auto simp: expand_keyword_with_gemini_def Let_def map_of_dict_set
      split: option.splits gen_response.splits if_splits)

theorem expand_twice_cache_hit_witness:
  "fst (expand_keyword_with_gemini brand_llm fresh_recommender marketing) = [brand, sales]
   \<and> expand_keyword_with_gemini brand_llm
        (snd (expand_keyword_with_gemini brand_llm fresh_recommender marketing)) marketing
       = expand_keyword_with_gemini brand_llm fresh_recommender marketing
   \<and> api_calls (snd (expand_keyword_with_gemini brand_llm
        (snd (expand_keyword_with_gemini brand_llm fresh_recommender marketing)) marketing)) \<le> 1"
proof -
  have h: "fst (expand_keyword_with_gemini brand_llm fresh_recommender marketing) \<noteq> []"
    by (simp add: expand_marketing)
  show ?thesis
    using expand_twice_cache_hit [OF h] by (simp add: expand_marketing)
qed

section \<open>The profile without a graph\<close>

lemma keys_fold_seed:
  "set (dict_keys (fold (\<lambda>item kw'. dict_set kw' item v) items kw))
     = set (dict_keys kw) \<union> set items"
  by (induction items arbitrary: kw) (auto simp: keys_dict_set)

lemma distinct_fold_seed:
  "distinct (dict_keys kw) \<Longrightarrow>
   distinct (dict_keys (fold (\<lambda>item kw'. dict_set kw' item v) items kw))"
  by (induction items arbitrary: kw) (auto simp: distinct_dict_set)

lemma values_fold_seed:
  "\<forall>kv \<in> set kw. snd kv = v \<Longrightarrow>
   \<forall>kv \<in> set (fold (\<lambda>item kw'. dict_set kw' item v) items kw). snd kv = v"
proof (induction items arbitrary: kw)
  case Nil
  then show ?case by simp
next
  case (Cons a items)
  have "\<forall>kv \<in> set (dict_set kw a v). snd kv = v"
    using Cons.prems set_dict_set [of kw a v] by auto
  then show ?case using Cons.IH by simp
qed

lemma keys_seed_interest:
  "set (dict_keys (seed_interest interest))
     = (case interest of None \<Rightarrow> {} | Some i \<Rightarrow> if i \<noteq> [] then {i} else {})"
  by (simp add: seed_interest_def dict_keys_def split: option.splits)

lemma values_seed_interest: "\<forall>kv \<in> set (seed_interest interest). snd kv = 1"
  by (simp add: seed_interest_def split: option.splits)

lemma distinct_seed_interest: "distinct (dict_keys (seed_interest interest))"
  by (simp add: seed_interest_def dict_keys_def split: option.splits)

text \<open>
  The statement of C6 fails at an empty double major: the source adds the double major
  only when it is truthy and is not the sentinel, so the empty string, which is not the
  sentinel, is not a key of the profile.
\<close>

theorem absent_graph_profile_counterexample:
  "set (dict_keys (get_keywords_from_input None marketing [] [] None))
     \<noteq> seed_terms_claimed marketing [] [] None"
  by (simp add: get_keywords_from_input_def input_items_of_def seed_interest_def dict_keys_def
      seed_terms_claimed_def NONE_SENTINEL_def marketing_def)

text \<open>
  C6, amended. When the concept graph is absent, the keys of the built profile are
  exactly the major, the double major when it is neither empty nor the sentinel, the
  history courses, and the interest when it is given (not \<open>None\<close>, not empty); every
  weight is 1.0, and no key occurs twice.
\<close>

theorem absent_graph_profile:
  "set (dict_keys (get_keywords_from_input None major double_major history_courses interest))
     = {major}
       \<union> (if double_major \<noteq> [] \<and> double_major \<noteq> NONE_SENTINEL then {double_major} else {})
       \<union> set history_courses
       \<union> (case interest of None \<Rightarrow> {} | Some i \<Rightarrow> if i \<noteq> [] then {i} else {})
   \<and> (\<forall>kv \<in> set (get_keywords_from_input None major double_major history_courses interest).
         snd kv = 1.0)
   \<and> distinct (dict_keys (get_keywords_from_input None major double_major history_courses interest))"
proof -
  let ?items = "input_items_of major double_major history_courses"
  have P: "get_keywords_from_input None major double_major history_courses interest
        = fold (\<lambda>item kw'. dict_set kw' item 1) ?items (seed_interest interest)"
    by (simp add: get_keywords_from_input_def)
  have "set ?items = {major}
       \<union> (if double_major \<noteq> [] \<and> double_major \<noteq> NONE_SENTINEL then {double_major} else {})
       \<union> set history_courses"
    by (auto simp: input_items_of_def)
  then have K: "set (dict_keys (fold (\<lambda>item kw'. dict_set kw' item 1) ?items (seed_interest interest)))
     = {major}
       \<union> (if double_major \<noteq> [] \<and> double_major \<noteq> NONE_SENTINEL then {double_major} else {})
       \<union> set history_courses
       \<union> (case interest of None \<Rightarrow> {} | Some i \<Rightarrow> if i \<noteq> [] then {i} else {})"
    unfolding keys_fold_seed keys_seed_interest by auto
  have V: "\<forall>kv \<in> set (fold (\<lambda>item kw'. dict_set kw' item 1) ?items (seed_interest interest)).
             snd kv = 1"
    by (rule values_fold_seed) (rule values_seed_interest)
  have D: "distinct (dict_keys (fold (\<lambda>item kw'. dict_set kw' item (1::real)) ?items
             (seed_interest interest)))"
    by (rule distinct_fold_seed) (rule distinct_seed_interest)
  show ?thesis unfolding P using K V D by simp
qed

theorem absent_graph_profile_witness:
  "set (dict_keys (get_keywords_from_input None marketing NONE_SENTINEL [brand] (Some sales)))
     = {marketing, brand, sales}
   \<and> distinct (dict_keys (get_keywords_from_input None marketing NONE_SENTINEL [brand] (Some sales)))"
  using absent_graph_profile [of marketing NONE_SENTINEL "[brand]" "Some sales"]
  by (auto simp: word_defs)

section \<open>The profile is never empty\<close>

lemma keys_neighbor_step_mono:
  "set (dict_keys kw) \<subseteq> set (dict_keys (neighbor_step G nb kw))"
  by (auto simp: neighbor_step_def Let_def keys_dict_set)

lemma keys_fold_neighbor_mono:
  "set (dict_keys kw) \<subseteq> set (dict_keys (fold (neighbor_step G) nbs kw))"
proof (induction nbs arbitrary: kw)
  case Nil
  then show ?case by simp
next
  case (Cons nb nbs)
  have "set (dict_keys kw) \<subseteq> set (dict_keys (neighbor_step G nb kw))"
    by (rule keys_neighbor_step_mono)
  also have "\<dots> \<subseteq> set (dict_keys (fold (neighbor_step G) nbs (neighbor_step G nb kw)))"
    by (rule Cons.IH)
  finally show ?case by simp
qed

lemma keys_fold_root_mono:
  "set (dict_keys kw) \<subseteq> set (dict_keys (fold (root_step G) roots kw))"
proof (induction roots arbitrary: kw)
  case Nil
  then show ?case by simp
next
  case (Cons r roots)
  have "set (dict_keys kw) \<subseteq> set (dict_keys (root_step G r kw))"
    unfolding root_step_def by (rule keys_fold_neighbor_mono)
  also have "\<dots> \<subseteq> set (dict_keys (fold (root_step G) roots (root_step G r kw)))"
    by (rule Cons.IH)
  finally show ?case by simp
qed

lemma item_in_item_step:
  "insert item (set (dict_keys kw)) \<subseteq> set (dict_keys (item_step G item kw))"
  using keys_fold_root_mono [of "dict_set kw item 1" G "target_nodes G item"]
  by (simp add: item_step_def keys_dict_set)

lemma keys_fold_item:
  "set (dict_keys kw) \<union> set items \<subseteq> set (dict_keys (fold (item_step G) items kw))"
proof (induction items arbitrary: kw)
  case Nil
  then show ?case by simp
next
  case (Cons item items)
  have "set (dict_keys kw) \<union> set (item # items)
        \<subseteq> set (dict_keys (item_step G item kw)) \<union> set items"
    using item_in_item_step [of item kw G] by auto
  also have "\<dots> \<subseteq> set (dict_keys (fold (item_step G) items (item_step G item kw)))"
    by (rule Cons.IH)
  finally show ?case by simp
qed

lemma major_in_profile:
  "major \<in> set (dict_keys (get_keywords_from_input g major double_major history_courses interest))"
proof (cases g)
  case None
  have "major \<in> set (input_items_of major double_major history_courses)"
    by (simp add: input_items_of_def)
  then show ?thesis
    using None by (simp add: get_keywords_from_input_def keys_fold_seed)
next
  case (Some G)
  have "major \<in> set (input_items_of major double_major history_courses)"
    by (simp add: input_items_of_def)
  then show ?thesis
    using Some keys_fold_item [of "seed_interest interest"
        "input_items_of major double_major history_courses" G]
    by (auto simp: get_keywords_from_input_def)
qed

lemma marketing_profile:
  "get_keywords_from_input None marketing NONE_SENTINEL [] None = [(marketing, 1)]"
  by (simp add: get_keywords_from_input_def input_items_of_def seed_interest_def)

text \<open>
  C9. When the course corpus is empty, \<open>run_analysis\<close> returns an empty recommendation
  list together with the built profile, and that profile is not empty. The major is
  always a seed term, so at least one seed term is supplied on every call, with or
  without a graph; the recommender is left as it was.
\<close>

theorem empty_corpus_run:
  assumes "target_courses self = []"
  shows "run_analysis llm judge self major double_major history interest
           = Inr (([], get_keywords_from_input (graph self) major double_major history interest),
                  self)
       \<and> get_keywords_from_input (graph self) major double_major history interest \<noteq> []"
proof -
  have "get_keywords_from_input (graph self) major double_major history interest \<noteq> []"
    using major_in_profile [of major "graph self" double_major history interest]
    by (auto simp: dict_keys_def)
  then show ?thesis using assms
    by (simp add: run_analysis_def rank_rows_def Let_def)
qed

theorem empty_corpus_run_witness:
  "run_analysis silent_llm array_judge fresh_recommender marketing NONE_SENTINEL [] None
     = Inr (([], [(marketing, 1)]), fresh_recommender)"
proof -
  have t: "target_courses fresh_recommender = []" by (simp add: fresh_recommender_def)
  have g: "graph fresh_recommender = None" by (simp add: fresh_recommender_def)
  from empty_corpus_run [OF t, of silent_llm array_judge marketing NONE_SENTINEL "[]" None]
  show ?thesis by (simp add: g marketing_profile)
qed

section \<open>Where the keys of the profile come from\<close>

lemma key_neighbor_step:
  "k \<in> set (dict_keys (neighbor_step G nb kw)) \<Longrightarrow>
   k \<in> set (dict_keys kw) \<or> (k = node_label G nb \<and> k \<noteq> [] \<and> k \<notin> STOPWORDS)"
  by (auto simp: neighbor_step_def Let_def keys_dict_set split: if_splits)

lemma key_fold_neighbor:
  "k \<in> set (dict_keys (fold (neighbor_step G) nbs kw)) \<Longrightarrow>
   k \<in> set (dict_keys kw) \<or> (k \<in> node_label G ` set nbs \<and> k \<noteq> [] \<and> k \<notin> STOPWORDS)"
proof (induction nbs arbitrary: kw)
  case Nil
  then show ?case by simp
next
  case (Cons nb nbs)
  from Cons.prems have "k \<in> set (dict_keys (fold (neighbor_step G) nbs (neighbor_step G nb kw)))"
    by simp
  from Cons.IH [OF this] show ?case
    using key_neighbor_step [of k G nb kw] by auto
qed

lemma key_fold_root:
  "k \<in> set (dict_keys (fold (root_step G) roots kw)) \<Longrightarrow>
   k \<in> set (dict_keys kw) \<or>
   (k \<noteq> [] \<and> k \<notin> STOPWORDS \<and>
    (\<exists>r \<in> set roots. k \<in> node_label G ` set (successors G r @ predecessors G r)))"
proof (induction roots arbitrary: kw)
  case Nil
  then show ?case by simp
next
  case (Cons r roots)
  from Cons.prems have "k \<in> set (dict_keys (fold (root_step G) roots (root_step G r kw)))"
    by simp
  from Cons.IH [OF this] show ?case
    using key_fold_neighbor [of k G "successors G r @ predecessors G r" kw]
    unfolding root_step_def by auto
qed

lemma key_item_step:
  "k \<in> set (dict_keys (item_step G item kw)) \<Longrightarrow>
   k \<in> set (dict_keys kw) \<or> k = item \<or>
   (k \<noteq> [] \<and> k \<notin> STOPWORDS \<and> k \<in> set (one_hop_labels G [item]))"
  using key_fold_root [of k G "target_nodes G item" "dict_set kw item 1"]
  by (auto simp: item_step_def keys_dict_set one_hop_labels_def)

lemma one_hop_labels_Cons:
  "set (one_hop_labels G (item # items))
     = set (one_hop_labels G [item]) \<union> set (one_hop_labels G items)"
  by (simp add: one_hop_labels_def)

lemma key_fold_item:
  "k \<in> set (dict_keys (fold (item_step G) items kw)) \<Longrightarrow>
   k \<in> set (dict_keys kw) \<or> k \<in> set items \<or>
   (k \<noteq> [] \<and> k \<notin> STOPWORDS \<and> k \<in> set (one_hop_labels G items))"
proof (induction items arbitrary: kw)
  case Nil
  then show ?case by simp
next
  case (Cons item items)
  from Cons.prems have "k \<in> set (dict_keys (fold (item_step G) items (item_step G item kw)))"
    by simp
  from Cons.IH [OF this] show ?case
    using key_item_step [of k G item kw] one_hop_labels_Cons [of G item items] by auto
qed

text \<open>The expansion never writes to a key that is a stopword.\<close>

lemma stop_neighbor_step:
  "s \<in> STOPWORDS \<Longrightarrow> map_of (neighbor_step G nb kw) s = map_of kw s"
  by (auto simp: neighbor_step_def Let_def map_of_dict_set)

lemma stop_fold_neighbor:
  "s \<in> STOPWORDS \<Longrightarrow> map_of (fold (neighbor_step G) nbs kw) s = map_of kw s"
  by (induction nbs arbitrary: kw) (simp_all add: stop_neighbor_step)

lemma stop_fold_root:
  "s \<in> STOPWORDS \<Longrightarrow> map_of (fold (root_step G) roots kw) s = map_of kw s"
  by (induction roots arbitrary: kw) (simp_all add: root_step_def stop_fold_neighbor)

lemma stop_item_step:
  "s \<in> STOPWORDS \<Longrightarrow>
   map_of (item_step G item kw) s = (if s = item then Some 1 else map_of kw s)"
  by (simp add: item_step_def stop_fold_root map_of_dict_set)

lemma stop_fold_item:
  "s \<in> STOPWORDS \<Longrightarrow>
   map_of (fold (item_step G) items kw) s = (if s \<in> set items then Some 1 else map_of kw s)"
proof (induction items arbitrary: kw rule: rev_induct)
  case Nil
  then show ?case by simp
next
  case (snoc item items)
  then show ?case by (simp add: stop_item_step)
qed

text \<open>
  C10. With a loaded graph, every key of the built profile is a seed term, or the given
  interest, or a label that is not empty, is not a stopword and is the label of a
  neighbour (successor or predecessor) of a node whose label contains a seed term. Seed
  terms and the interest are not filtered: one of them that is a stopword is a key of the
  profile, and its weight is exactly 1.0.
\<close>

theorem expansion_keys_filtered:
  "(\<forall>k \<in> set (dict_keys (get_keywords_from_input (Some G) major double_major history_courses interest)).
       k \<in> set (input_items_of major double_major history_courses)
     \<or> (interest_given interest \<and> interest = Some k)
     \<or> (k \<noteq> [] \<and> k \<notin> STOPWORDS
        \<and> k \<in> set (one_hop_labels G (input_items_of major double_major history_courses))))
   \<and> (\<forall>s \<in> set (input_items_of major double_major history_courses)
              \<union> {i. interest_given interest \<and> interest = Some i}.
        s \<in> STOPWORDS \<longrightarrow>
        map_of (get_keywords_from_input (Some G) major double_major history_courses interest) s = Some 1)"
proof -
  let ?items = "input_items_of major double_major history_courses"
  have P: "get_keywords_from_input (Some G) major double_major history_courses interest
        = fold (item_step G) ?items (seed_interest interest)"
    by (simp add: get_keywords_from_input_def)
  have I: "k \<in> set (dict_keys (seed_interest interest)) \<Longrightarrow>
           interest_given interest \<and> interest = Some k" for k
    by (auto simp: keys_seed_interest interest_given_def split: option.splits if_splits)
  have A: "k \<in> set ?items \<or> (interest_given interest \<and> interest = Some k)
     \<or> (k \<noteq> [] \<and> k \<notin> STOPWORDS \<and> k \<in> set (one_hop_labels G ?items))"
    if "k \<in> set (dict_keys (fold (item_step G) ?items (seed_interest interest)))" for k
    using key_fold_item [OF that] I by blast
  have B: "map_of (fold (item_step G) ?items (seed_interest interest)) s = Some 1"
    if "s \<in> set ?items \<union> {i. interest_given interest \<and> interest = Some i}" "s \<in> STOPWORDS" for s
  proof (cases "s \<in> set ?items")
    case True
    then show ?thesis using that(2) by (simp add: stop_fold_item)
  next
    case False
    with that(1) have "interest = Some s" "s \<noteq> []" by (auto simp: interest_given_def)
    then have "map_of (seed_interest interest) s = Some 1" by (simp add: seed_interest_def)
    with False that(2) show ?thesis by (simp add: stop_fold_item)
  qed
  show ?thesis unfolding P using A B by auto
qed

lemma sample_profile:
  "get_keywords_from_input (Some sample_graph) marketing NONE_SENTINEL [analysis_stopword] None
     = [(marketing, 3 / 2), (brand, 1 / 2), (analysis_stopword, 1)]"
  by (simp add: get_keywords_from_input_def input_items_of_def seed_interest_def item_step_def
      target_nodes_def remove_spaces_def root_step_def successors_def predecessors_def
      neighbor_step_def node_label_def sample_graph_def Let_def eval_dict eval_strings)

theorem expansion_keys_filtered_witness:
  "get_keywords_from_input (Some sample_graph) marketing NONE_SENTINEL [analysis_stopword] None
     = [(marketing, 3 / 2), (brand, 1 / 2), (analysis_stopword, 1)]
   \<and> brand \<noteq> [] \<and> brand \<notin> STOPWORDS
   \<and> brand \<in> set (one_hop_labels sample_graph
                    (input_items_of marketing NONE_SENTINEL [analysis_stopword]))
   \<and> analysis_stopword \<in> STOPWORDS
   \<and> map_of (get_keywords_from_input (Some sample_graph) marketing NONE_SENTINEL
               [analysis_stopword] None) analysis_stopword = Some 1"
proof -
  note t = expansion_keys_filtered [of sample_graph marketing NONE_SENTINEL "[analysis_stopword]" None]
  have k: "brand \<in> set (dict_keys (get_keywords_from_input (Some sample_graph) marketing
             NONE_SENTINEL [analysis_stopword] None))"
    by (simp add: sample_profile dict_keys_def)
  have n: "brand \<notin> set (input_items_of marketing NONE_SENTINEL [analysis_stopword])"
    "\<not> interest_given None"
    by (simp_all add: input_items_of_def interest_given_def word_defs)
  from t k n have a: "brand \<noteq> [] \<and> brand \<notin> STOPWORDS
      \<and> brand \<in> set (one_hop_labels sample_graph
                       (input_items_of marketing NONE_SENTINEL [analysis_stopword]))"
    by blast
  have s: "analysis_stopword \<in> set (input_items_of marketing NONE_SENTINEL [analysis_stopword])
      \<union> {i. interest_given None \<and> None = Some i}"
    "analysis_stopword \<in> STOPWORDS"
    by (simp_all add: input_items_of_def stop_facts)
  from t s have b: "map_of (get_keywords_from_input (Some sample_graph) marketing NONE_SENTINEL
        [analysis_stopword] None) analysis_stopword = Some 1"
    by blast
  from sample_profile a s(2) b show ?thesis by (intro conjI) simp_all
qed

section \<open>The relevance judgement never fails\<close>



section \<open>Ranking\<close>

lemma rank_rows_sorted:
  "length (rank_rows recs) \<le> 5
   \<and> sorted_wrt (\<lambda>a b. total_score (fst a) \<ge> total_score (fst b)) (rank_rows recs)"
proof -
  let ?f = "\<lambda>row::recommendation \<times> int. - total_score (fst row)"
  have "sorted (map ?f (sort_key ?f (add_suitability recs)))"
    by (rule sorted_sort_key)
  then have "sorted_wrt (\<lambda>a b. ?f a \<le> ?f b) (sort_key ?f (add_suitability recs))"
    by (simp only: sorted_map)
  then have "sorted_wrt (\<lambda>a b. ?f a \<le> ?f b) (take 5 (sort_key ?f (add_suitability recs)))"
    by (rule sorted_wrt_take)
  then show ?thesis by (simp add: rank_rows_def)
qed

text \<open>Without a client no call is made, the recommender does not change and the run returns.\<close>

lemma offline_expand: "\<not> client self \<Longrightarrow> expand_keyword_with_gemini llm self k = ([], self)"
  by (simp add: expand_keyword_with_gemini_def)

lemma offline_wp_fold:
  "\<not> client self \<Longrightarrow> fold (wp_step llm ck) ts (acc, self) = (acc, self)"
  by (induction ts) (simp_all add: wp_step_def offline_expand split: prod.splits)

lemma offline_calculate:
  "\<not> client self \<Longrightarrow> snd (calculate_ctwp_score llm self p ck) = self"
  by (simp add: calculate_ctwp_score_def wp_loop_def offline_wp_fold split: prod.splits)

lemma offline_score_course_returns:
  assumes "\<not> client self"
  shows "\<exists>r. score_course llm judge p info c self = Inr (r, self)"
proof -
  obtain x ms where c:
    "calculate_ctwp_score llm self p (case keyword_weights c of None \<Rightarrow> [] | Some k \<Rightarrow> k)
      = ((x, ms), self)"
    using offline_calculate [OF assms, of llm p
        "case keyword_weights c of None \<Rightarrow> [] | Some k \<Rightarrow> k"]
    by (cases "calculate_ctwp_score llm self p
          (case keyword_weights c of None \<Rightarrow> [] | Some k \<Rightarrow> k)") auto
  show ?thesis
    using assms by (simp add: score_course_def c evaluate_relevance_with_gemini_def float_add_def)
qed

lemma offline_score_courses_returns:
  "\<not> client self \<Longrightarrow> \<exists>recs. score_courses llm judge p info cs self acc = Inr (recs, self)"
proof (induction cs arbitrary: acc)
  case Nil
  then show ?case by simp
next
  case (Cons c cs)
  from offline_score_course_returns [OF Cons.prems]
  obtain r where "score_course llm judge p info c self = Inr (r, self)" by blast
  then show ?case using Cons.IH [OF Cons.prems] by simp
qed

lemma run_analysis_offline_returns:
  assumes "\<not> client self"
  shows "\<exists>rows. run_analysis llm judge self major double_major history interest
           = Inr ((rows, get_keywords_from_input (graph self) major double_major history interest),
                  self)"
proof -
  let ?p = "get_keywords_from_input (graph self) major double_major history interest"
  let ?info = "\<lparr>profile_keywords = join [44, 32] (take 10 (dict_keys ?p)),
                  interest_text = (case interest of
                                     None \<Rightarrow> NONE_SENTINEL
                                   | Some i \<Rightarrow> if i \<noteq> [] then i else NONE_SENTINEL)\<rparr>"
  from offline_score_courses_returns [OF assms]
  obtain recs where
    "score_courses llm judge ?p ?info (target_courses self) self [] = Inr (recs, self)"
    by blast
  then show ?thesis by (simp add: run_analysis_def Let_def)
qed

text \<open>The run over a corpus of \<open>"marketing"\<close> courses, without a client.\<close>

lemma offline_ctwp:
  "\<not> client self \<Longrightarrow>
   calculate_ctwp_score llm self [(marketing, 1)] [(marketing, w)] = ((3.75 * w, [marketing]), self)"
  by (simp add: calculate_ctwp_score_def ct_loop_def filtered_ct_def ct_step_def wp_loop_def
      sorted_student_terms_def wp_step_def offline_expand stop_facts get_idf_weight_def
      eval_dict)
     (simp add: marketing_def)

lemma offline_score_course:
  "\<not> client self \<Longrightarrow>
   score_course llm judge [(marketing, 1)] info (course_weighing w) self = Inr (scored w, self)"
  by (simp add: score_course_def offline_ctwp evaluate_relevance_with_gemini_def float_add_def
      scored_def course_weighing_def)

lemma offline_score_courses:
  "\<not> client self \<Longrightarrow>
   score_courses llm judge [(marketing, 1)] info (map course_weighing ws) self acc
     = Inr (acc @ map scored ws, self)"
  by (induction ws arbitrary: acc) (simp_all add: offline_score_course)

lemma offline_run:
  "run_analysis llm judge (corpus_recommender ws) marketing NONE_SENTINEL [] None
     = Inr ((rank_rows (map scored ws), [(marketing, 1)]), corpus_recommender ws)"
proof -
  have c: "\<not> client (corpus_recommender ws)"
    and g: "graph (corpus_recommender ws) = None"
    and t: "target_courses (corpus_recommender ws) = map course_weighing ws"
    by (simp_all add: corpus_recommender_def offline_recommender_def fresh_recommender_def)
  show ?thesis
    by (simp add: run_analysis_def g t marketing_profile Let_def offline_score_courses [OF c])
qed

lemma total_scored: "total_score (scored w) = 3.75 * w"
  by (simp add: scored_def make_record_def)

lemma length_rank_rows: "length (rank_rows recs) = min 5 (length recs)"
  by (auto simp: rank_rows_def add_suitability_def Let_def)

text \<open>
  C3. For every course corpus, the recommendation list that \<open>run_analysis\<close> returns has
  at most 5 rows, and its rows are in non-increasing order of total score.
\<close>

theorem run_top5_sorted:
  assumes "run_analysis llm judge self major double_major history interest
             = Inr ((rows, prof), self')"
  shows "length rows \<le> 5
       \<and> sorted_wrt (\<lambda>a b. total_score (fst a) \<ge> total_score (fst b)) rows"
proof -
  from assms obtain recs where "rows = rank_rows recs"
    by (auto simp: run_analysis_def Let_def split: sum.splits)
  then show ?thesis using rank_rows_sorted [of recs] by simp
qed

theorem run_top5_sorted_witness:
  "run_analysis silent_llm array_judge (corpus_recommender [1 / 5, 2 / 5, 3 / 5, 4 / 5, 1, 1 / 2])
       marketing NONE_SENTINEL [] None
     = Inr ((rank_rows [scored (1 / 5), scored (2 / 5), scored (3 / 5), scored (4 / 5), scored 1,
                        scored (1 / 2)],
             [(marketing, 1)]),
            corpus_recommender [1 / 5, 2 / 5, 3 / 5, 4 / 5, 1, 1 / 2])
   \<and> length (rank_rows [scored (1 / 5), scored (2 / 5), scored (3 / 5), scored (4 / 5), scored 1,
                        scored (1 / 2)]) = 5
   \<and> sorted_wrt (\<lambda>a b. total_score (fst a) \<ge> total_score (fst b))
        (rank_rows [scored (1 / 5), scored (2 / 5), scored (3 / 5), scored (4 / 5), scored 1,
                    scored (1 / 2)])"
proof -
  have r: "run_analysis silent_llm array_judge
       (corpus_recommender [1 / 5, 2 / 5, 3 / 5, 4 / 5, 1, 1 / 2]) marketing NONE_SENTINEL [] None
     = Inr ((rank_rows [scored (1 / 5), scored (2 / 5), scored (3 / 5), scored (4 / 5), scored 1,
                        scored (1 / 2)],
             [(marketing, 1)]),
            corpus_recommender [1 / 5, 2 / 5, 3 / 5, 4 / 5, 1, 1 / 2])"
    by (simp add: offline_run)
  have l: "length (rank_rows [scored (1 / 5), scored (2 / 5), scored (3 / 5), scored (4 / 5),
                              scored 1, scored (1 / 2)]) = 5"
    by (simp add: length_rank_rows)
  show ?thesis using run_top5_sorted [OF r] r l by simp
qed

section \<open>Rounding to binary64\<close>

lemma round_half_even_bounds:
  "q - 1 / 2 \<le> of_int (round_half_even q) \<and> of_int (round_half_even q) \<le> q + 1 / 2"
  unfolding round_half_even_def Let_def by (auto; linarith)

lemma round_half_even_of_int: "round_half_even (of_int n) = n"
  by (simp add: round_half_even_def)

lemma round_half_even_mono:
  assumes "q \<le> q'"
  shows "round_half_even q \<le> round_half_even q'"
proof (rule ccontr)
  assume "\<not> round_half_even q \<le> round_half_even q'"
  then have gt: "round_half_even q' + 1 \<le> round_half_even q" by simp
  then have "real_of_int (round_half_even q') + 1 \<le> of_int (round_half_even q)"
    by linarith
  with round_half_even_bounds [of q] round_half_even_bounds [of q'] assms
  have "q = q'" by linarith
  with gt show False by simp
qed

lemma binary_exponent_eqI:
  "0 < x \<Longrightarrow> 2 powr of_int k \<le> x \<Longrightarrow> x < 2 powr (of_int k + 1) \<Longrightarrow> binary_exponent x = k"
  by (simp add: binary_exponent_def floor_log_eq_powr_iff)

lemma binary_exponent_bounds:
  assumes "0 < x"
  shows "2 powr of_int (binary_exponent x) \<le> x" "x < 2 powr (of_int (binary_exponent x) + 1)"
  using assms floor_log_eq_powr_iff [of x 2 "binary_exponent x"]
  by (simp_all add: binary_exponent_def)

lemma binary_exponent_mono:
  assumes "0 < x" "x \<le> y"
  shows "binary_exponent x \<le> binary_exponent y"
  using assms by (simp add: binary_exponent_def floor_mono)

lemma unit_eq: "(2::real) powr of_int (e - 52) = 2 powr of_int e / 2 ^ 52"
  by (simp add: powr_diff)

lemma fl_pos_scaled:
  assumes "0 < x"
  shows "2 ^ 52 \<le> x / 2 powr of_int (binary_exponent x - 52)"
    and "x / 2 powr of_int (binary_exponent x - 52) \<le> 2 ^ 53"
proof -
  define p :: real where "p = 2 powr of_int (binary_exponent x)"
  have ppos: "0 < p" by (simp add: p_def)
  have u: "2 powr of_int (binary_exponent x - 52) = p / 2 ^ 52"
    unfolding p_def by (rule unit_eq)
  have b: "p \<le> x" "x < p * 2"
    using binary_exponent_bounds [OF assms] by (simp_all add: p_def powr_add)
  have q: "x / (p / 2 ^ 52) = x / p * 2 ^ 52" by simp
  have "1 \<le> x / p" using b(1) ppos by (simp add: le_divide_eq)
  then have lo: "1 * 2 ^ 52 \<le> x / p * 2 ^ 52" by (rule mult_right_mono) simp
  have "x / p \<le> 2" using b(2) ppos by (simp add: divide_le_eq)
  then have hi: "x / p * 2 ^ 52 \<le> 2 * 2 ^ 52" by (rule mult_right_mono) simp
  show "2 ^ 52 \<le> x / 2 powr of_int (binary_exponent x - 52)"
    unfolding u q using lo by simp
  show "x / 2 powr of_int (binary_exponent x - 52) \<le> 2 ^ 53"
    unfolding u q using hi by simp
qed

lemma fl_pos_bounds:
  assumes "0 < x"
  shows "2 powr of_int (binary_exponent x) \<le> fl_pos x"
    and "fl_pos x \<le> 2 powr (of_int (binary_exponent x) + 1)"
proof -
  define p :: real where "p = 2 powr of_int (binary_exponent x)"
  define u :: real where "u = 2 powr of_int (binary_exponent x - 52)"
  define R :: real where "R = of_int (round_half_even (x / u))"
  have u: "u = p / 2 ^ 52" unfolding p_def u_def by (rule unit_eq)
  have upos: "0 \<le> u" by (simp add: u_def)
  have "round_half_even (of_int (2 ^ 52)) \<le> round_half_even (x / u)"
    using fl_pos_scaled(1) [OF assms] unfolding u_def by (intro round_half_even_mono) simp
  then have "real_of_int (2 ^ 52) \<le> R"
    unfolding R_def by (simp only: round_half_even_of_int of_int_le_iff)
  then have lo: "2 ^ 52 \<le> R" by simp
  have "round_half_even (x / u) \<le> round_half_even (of_int (2 ^ 53))"
    using fl_pos_scaled(2) [OF assms] unfolding u_def by (intro round_half_even_mono) simp
  then have "R \<le> real_of_int (2 ^ 53)"
    unfolding R_def by (simp only: round_half_even_of_int of_int_le_iff)
  then have hi: "R \<le> 2 ^ 53" by simp
  have f: "fl_pos x = R * u" by (simp add: fl_pos_def Let_def R_def u_def)
  have p2: "2 powr (of_int (binary_exponent x) + 1) = 2 * p" by (simp add: p_def powr_add)
  have "2 ^ 52 * u \<le> R * u" using lo upos by (rule mult_right_mono)
  moreover have "2 ^ 52 * u = p" by (simp add: u)
  ultimately show "2 powr of_int (binary_exponent x) \<le> fl_pos x"
    unfolding f p_def by simp
  have "R * u \<le> 2 ^ 53 * u" using hi upos by (rule mult_right_mono)
  moreover have "2 ^ 53 * u = 2 * p" by (simp add: u)
  ultimately show "fl_pos x \<le> 2 powr (of_int (binary_exponent x) + 1)"
    unfolding f p2 by simp
qed

lemma fl_pos_positive: "0 < x \<Longrightarrow> 0 < fl_pos x"
proof -
  assume "0 < x"
  from fl_pos_bounds(1) [OF this] have "2 powr of_int (binary_exponent x) \<le> fl_pos x" .
  moreover have "(0::real) < 2 powr of_int (binary_exponent x)" by simp
  ultimately show ?thesis by linarith
qed

lemma fl_pos_mono:
  assumes "0 < x" "x \<le> y"
  shows "fl_pos x \<le> fl_pos y"
proof -
  have ypos: "0 < y" using assms by linarith
  have le: "binary_exponent x \<le> binary_exponent y" using assms by (rule binary_exponent_mono)
  show ?thesis
  proof (cases "binary_exponent x = binary_exponent y")
    case True
    let ?u = "(2::real) powr of_int (binary_exponent y - 52)"
    have upos: "0 < ?u" by simp
    have "x / ?u \<le> y / ?u" using assms(2) upos by (simp add: divide_right_mono)
    then have "round_half_even (x / ?u) \<le> round_half_even (y / ?u)"
      by (rule round_half_even_mono)
    then have "real_of_int (round_half_even (x / ?u)) \<le> of_int (round_half_even (y / ?u))"
      by linarith
    then have "of_int (round_half_even (x / ?u)) * ?u \<le> of_int (round_half_even (y / ?u)) * ?u"
      using upos by (intro mult_right_mono) simp_all
    then show ?thesis by (simp add: fl_pos_def Let_def True)
  next
    case False
    with le have "binary_exponent x + 1 \<le> binary_exponent y" by simp
    then have "real_of_int (binary_exponent x) + 1 \<le> of_int (binary_exponent y)" by linarith
    then have "(2::real) powr (of_int (binary_exponent x) + 1) \<le> 2 powr of_int (binary_exponent y)"
      by (intro powr_mono) simp_all
    with fl_pos_bounds(2) [OF assms(1)] fl_pos_bounds(1) [OF ypos] show ?thesis by linarith
  qed
qed

lemma fl_mono:
  assumes "x \<le> y"
  shows "fl x \<le> fl y"
proof -
  consider "0 < x" | "x = 0" | "x < 0" by linarith
  then show ?thesis
  proof cases
    case 1
    then show ?thesis using assms fl_pos_mono [OF 1 assms] by (simp add: fl_def)
  next
    case 2
    then show ?thesis using assms fl_pos_positive [of y] by (auto simp: fl_def intro: less_imp_le)
  next
    case 3
    consider "0 < y" | "y = 0" | "y < 0" by linarith
    then show ?thesis
    proof cases
      case 1
      then show ?thesis using 3 fl_pos_positive [of y] fl_pos_positive [of "- x"]
        by (simp add: fl_def)
    next
      case 2
      then show ?thesis using 3 fl_pos_positive [of "- x"] by (simp add: fl_def)
    next
      case 3
      have "fl_pos (- y) \<le> fl_pos (- x)" using 3 assms by (intro fl_pos_mono) simp_all
      then show ?thesis using 3 \<open>x < 0\<close> by (simp add: fl_def)
    qed
  qed
qed

lemma fl_zero: "fl 0 = 0"
  by (simp add: fl_def)

text \<open>Evaluation at a value whose exponent is known.\<close>

lemma fl_pos_eval:
  assumes "0 < x" "2 powr of_int k \<le> x" "x < 2 powr (of_int k + 1)"
  shows "fl_pos x = of_int (round_half_even (x / 2 powr of_int (k - 52))) * 2 powr of_int (k - 52)"
  using binary_exponent_eqI [OF assms] by (simp add: fl_pos_def Let_def)

lemma fl_one: "fl 1 = 1"
  using fl_pos_eval [of 1 0] by (simp add: fl_def round_half_even_def powr_neg_numeral)

lemma fl_95: "fl 95 = 95"
  using fl_pos_eval [of 95 6] by (simp add: fl_def round_half_even_def powr_neg_numeral)

lemma fl_half: "fl (1 / 2) = 1 / 2"
  using fl_pos_eval [of "1 / 2" "- 1"] by (simp add: fl_def round_half_even_def powr_neg_numeral)

lemma fl_95_half: "fl (95 / 2) = 95 / 2"
  using fl_pos_eval [of "95 / 2" 5] by (simp add: fl_def round_half_even_def powr_neg_numeral)

lemma fl_neg: "fl (- x) = - fl x"
  by (simp add: fl_def)

lemma fl_7_95: "fl (7 / 95) = 5309506929110479 / 72057594037927936"
  using fl_pos_eval [of "7 / 95" "- 4"] by (simp add: fl_def round_half_even_def powr_neg_numeral)

lemma fl_7_95_times:
  "fl (5309506929110479 / 72057594037927936 * 95) = 7881299347898367 / 1125899906842624"
  using fl_pos_eval [of "5309506929110479 / 72057594037927936 * 95" 2]
  by (simp add: fl_def round_half_even_def powr_neg_numeral)

lemma fl_fl_7_95: "fl (fl (7 / 95) * 95) = 7881299347898367 / 1125899906842624"
  by (simp only: fl_7_95 fl_7_95_times)

section \<open>The suitability percentage\<close>

lemma max_score_of_Max: "recs \<noteq> [] \<Longrightarrow> max_score_of recs = Max (total_score ` set recs)"
proof (cases recs)
  case Nil
  then show "recs \<noteq> [] \<Longrightarrow> ?thesis" by simp
next
  case (Cons r rs)
  have "fold max (map total_score rs) (total_score r)
          = Max (set (total_score r # map total_score rs))"
    by (simp only: Max.set_eq_fold)
  then show ?thesis using Cons by (simp add: max_score_of_def)
qed

lemma total_le_max: "r \<in> set recs \<Longrightarrow> total_score r \<le> max_score_of recs"
proof -
  assume r: "r \<in> set recs"
  then have "recs \<noteq> []" by auto
  then have "max_score_of recs = Max (total_score ` set recs)" by (rule max_score_of_Max)
  then show ?thesis using r by simp
qed

lemma astype_int_le: "x \<le> 95 \<Longrightarrow> astype_int x \<le> 95"
  by (auto simp: astype_int_def floor_le_iff ceiling_le_iff)

lemma astype_int_nonneg: "0 \<le> x \<Longrightarrow> astype_int x = \<lfloor>x\<rfloor> \<and> 0 \<le> astype_int x"
  by (auto simp: astype_int_def)

text \<open>Rounding is monotone and exact at 0, 1 and 95, so it keeps the bounds of the share.\<close>

lemma percent_le_95:
  assumes "0 < (m::real)" "t \<le> m"
  shows "fl (fl (t / m) * 95) \<le> 95"
proof -
  from assms have "t / m \<le> 1" by (simp add: divide_le_eq)
  then have "fl (t / m) \<le> fl 1" by (rule fl_mono)
  then have "fl (t / m) \<le> 1" by (simp only: fl_one)
  then have "fl (t / m) * 95 \<le> 1 * 95" by (rule mult_right_mono) simp
  then have "fl (t / m) * 95 \<le> 95" by simp
  then have "fl (fl (t / m) * 95) \<le> fl 95" by (rule fl_mono)
  then show ?thesis by (simp only: fl_95)
qed

lemma percent_nonneg:
  assumes "0 < (m::real)" "0 \<le> t"
  shows "0 \<le> fl (fl (t / m) * 95)"
proof -
  from assms have "0 \<le> t / m" by simp
  then have "fl 0 \<le> fl (t / m)" by (rule fl_mono)
  then have "0 \<le> fl (t / m)" by (simp only: fl_zero)
  then have "0 \<le> fl (t / m) * 95" by simp
  then have "fl 0 \<le> fl (fl (t / m) * 95)" by (rule fl_mono)
  then show ?thesis by (simp only: fl_zero)
qed

lemma rank_two:
  "rank_rows [scored 1, scored (- (1 / 2))] = [(scored 1, 95), (scored (- (1 / 2)), - 47)]"
  by (simp add: rank_rows_def add_suitability_def max_score_of_def total_scored astype_int_def
      fl_one fl_95 fl_half fl_95_half fl_neg)

text \<open>
  The statement of C2 fails when a total score is negative: for two courses whose keyword
  \<open>"marketing"\<close> weighs 1.0 and -0.5, and the profile \<open>{"marketing": 1.0}\<close>, the totals
  are 3.75 and -1.875 and the percentages are 95 and -47; the floor of -47.5 is -48, and
  -47 is not within 0 and 95. Every number of this run is a binary64 number, and no
  operation rounds.
\<close>

theorem suitability_counterexample:
  "run_analysis silent_llm array_judge (corpus_recommender [1, - (1 / 2)]) marketing NONE_SENTINEL
       [] None
     = Inr (([(scored 1, 95), (scored (- (1 / 2)), - 47)], [(marketing, 1)]),
            corpus_recommender [1, - (1 / 2)])
   \<and> \<not> suitability_claimed [scored 1, scored (- (1 / 2))] (scored (- (1 / 2)), - 47)"
  by (simp add: offline_run rank_two suitability_claimed_def total_scored)

text \<open>
  The percentage is not the floor of the exact share either: for the totals 47.5 and 3.5
  the exact value of \<open>3.5 / 47.5 * 95\<close> is 7, and the two float operations give
  \<open>6.999999999999999\<close>, which truncates to 6.
\<close>

lemma suitability_rounding_example:
  "add_suitability [scored (38 / 3), scored (14 / 15)]
     = [(scored (38 / 3), 95), (scored (14 / 15), 6)]
   \<and> total_score (scored (38 / 3)) = 47.5 \<and> total_score (scored (14 / 15)) = 3.5
   \<and> \<lfloor>total_score (scored (14 / 15)) / total_score (scored (38 / 3)) * 95\<rfloor> = 7"
  by (simp add: add_suitability_def max_score_of_def total_scored astype_int_def
      fl_one fl_95 fl_fl_7_95)

text \<open>
  C2, amended. For every non-empty list of scored records, with \<open>maxTotal\<close> the greatest
  total score: when \<open>maxTotal\<close> is not positive every percentage is 0; when it is
  positive every percentage is the float value of \<open>(totalScore / maxTotal) * 95\<close> (the
  division and the multiplication each rounded to binary64) truncated toward zero, and is
  at most 95; for a record whose total score is not negative it is the floor of that float
  value and lies within 0 and 95. The rows that are returned are among these.
\<close>

theorem suitability_percent:
  assumes "recs \<noteq> []" and "(r, p) \<in> set (add_suitability recs)"
  shows "max_score_of recs = Max (total_score ` set recs)
       \<and> (\<not> 0 < max_score_of recs \<longrightarrow> p = 0)
       \<and> (0 < max_score_of recs \<longrightarrow>
            p = astype_int (fl (fl (total_score r / max_score_of recs) * 95)) \<and> p \<le> 95)
       \<and> (0 < max_score_of recs \<and> 0 \<le> total_score r \<longrightarrow>
            p = \<lfloor>fl (fl (total_score r / max_score_of recs) * 95)\<rfloor> \<and> 0 \<le> p \<and> p \<le> 95)
       \<and> set (rank_rows recs) \<subseteq> set (add_suitability recs)"
proof -
  let ?m = "max_score_of recs"
  let ?v = "fl (fl (total_score r / ?m) * 95)"
  have M: "?m = Max (total_score ` set recs)" using assms(1) by (rule max_score_of_Max)
  have Z: "p = 0" if "\<not> 0 < ?m" using that assms(2) by (auto simp: add_suitability_def Let_def)
  have mem: "r \<in> set recs"
    using assms(2) by (auto simp: add_suitability_def Let_def split: if_splits)
  have P: "p = astype_int ?v" if "0 < ?m"
    using that assms(2) by (auto simp: add_suitability_def Let_def)
  have U: "p \<le> 95" if "0 < ?m"
    using P [OF that] astype_int_le [OF percent_le_95 [OF that total_le_max [OF mem]]] by simp
  have F: "p = \<lfloor>?v\<rfloor> \<and> 0 \<le> p" if "0 < ?m" "0 \<le> total_score r"
  proof -
    have nn: "0 \<le> ?v" using that by (rule percent_nonneg)
    from nn astype_int_nonneg [OF nn] P [OF that(1)] show ?thesis by simp
  qed
  have S: "set (rank_rows recs) \<subseteq> set (add_suitability recs)"
    using set_take_subset [of 5 "sort_key (\<lambda>row. - total_score (fst row)) (add_suitability recs)"]
    by (auto simp: rank_rows_def)
  show ?thesis using M Z P U F S by blast
qed

theorem suitability_percent_witness:
  "max_score_of [scored 1, scored (1 / 2)] = Max (total_score ` set [scored 1, scored (1 / 2)])
   \<and> add_suitability [scored 1, scored (1 / 2)] = [(scored 1, 95), (scored (1 / 2), 47)]
   \<and> (47::int)
       = \<lfloor>fl (fl (total_score (scored (1 / 2)) / max_score_of [scored 1, scored (1 / 2)]) * 95)\<rfloor>"
proof -
  have a: "add_suitability [scored 1, scored (1 / 2)] = [(scored 1, 95), (scored (1 / 2), 47)]"
    by (simp add: add_suitability_def max_score_of_def total_scored astype_int_def
        fl_one fl_95 fl_half fl_95_half)
  have n: "[scored 1, scored (1 / 2)] \<noteq> []" by simp
  have m: "(scored (1 / 2), 47) \<in> set (add_suitability [scored 1, scored (1 / 2)])"
    by (simp add: a)
  have p: "0 < max_score_of [scored 1, scored (1 / 2)] \<and> 0 \<le> total_score (scored (1 / 2))"
    by (simp add: max_score_of_def total_scored)
  note t = suitability_percent [OF n m]
  from t have x: "max_score_of [scored 1, scored (1 / 2)]
                    = Max (total_score ` set [scored 1, scored (1 / 2)])"
    by (rule conjunct1)
  from t p have f: "(47::int)
      = \<lfloor>fl (fl (total_score (scored (1 / 2)) / max_score_of [scored 1, scored (1 / 2)]) * 95)\<rfloor>"
    by blast
  from x a f show ?thesis by (intro conjI)
qed

section \<open>The matches of the first loop\<close>

lemma snd_fold_ct_step:
  "fold (ct_step p ck) ts (a, m)
     = (a + sum_list (map (\<lambda>t. dict_get p t 1 * dict_get ck t 1 * get_idf_weight t) ts), m @ ts)"
  by (induction ts arbitrary: a m) (simp_all add: ct_step_def)

lemma ct_matches: "snd (ct_loop p ck) = filtered_ct p ck"
  by (simp add: ct_loop_def snd_fold_ct_step)

section \<open>The common-term score and the order of its additions\<close>

text \<open>The binary64 numbers of the example are fixed by the rounding; four float additions.\<close>

lemma fl_0_2: "fl float_0_2 = float_0_2"
  using fl_pos_eval [of float_0_2 "- 3"]
  by (simp add: fl_def float_0_2_def round_half_even_def powr_neg_numeral)

lemma fl_0_3: "fl float_0_3 = float_0_3"
  using fl_pos_eval [of float_0_3 "- 2"]
  by (simp add: fl_def float_0_3_def round_half_even_def powr_neg_numeral)

lemma fl_0_1: "fl float_0_1 = float_0_1"
  using fl_pos_eval [of float_0_1 "- 4"]
  by (simp add: fl_def float_0_1_def round_half_even_def powr_neg_numeral)

lemma add_0_2_0_3: "fl (float_0_2 + float_0_3) = 1 / 2"
proof -
  have "float_0_2 + float_0_3 = 1 / 2" by (simp add: float_0_2_def float_0_3_def)
  then show ?thesis by (simp only: fl_half)
qed

lemma add_0_5_0_1: "fl (1 / 2 + float_0_1) = 5404319552844595 / 9007199254740992"
  using fl_pos_eval [of "1 / 2 + float_0_1" "- 1"]
  by (simp add: fl_def float_0_1_def round_half_even_def powr_neg_numeral)

lemma add_0_3_0_1: "fl (float_0_3 + float_0_1) = 3602879701896397 / 9007199254740992"
  using fl_pos_eval [of "float_0_3 + float_0_1" "- 2"]
  by (simp add: fl_def float_0_3_def float_0_1_def round_half_even_def powr_neg_numeral)

lemma add_0_4_0_2:
  "fl (3602879701896397 / 9007199254740992 + float_0_2) = 1351079888211149 / 2251799813685248"
  using fl_pos_eval [of "3602879701896397 / 9007199254740992 + float_0_2" "- 1"]
  by (simp add: fl_def float_0_2_def round_half_even_def powr_neg_numeral)

lemmas eval_terms = term_ai_def term_ux_def term_db_def

lemma terms_not_stop: "term_ai \<notin> STOPWORDS" "term_ux \<notin> STOPWORDS" "term_db \<notin> STOPWORDS"
  by (simp_all add: eval_terms STOPWORDS_def STOPWORDS_list_def)

lemma filtered3: "filtered_ct profile3 keywords3 = [term_ai, term_ux, term_db]"
  "filtered_ct profile3 keywords3_rotated = [term_ai, term_ux, term_db]"
  by (simp_all add: filtered_ct_def profile3_def keywords3_def keywords3_rotated_def dict_keys_def
      dict_has_def terms_not_stop)

lemma lookups3:
  "dict_get profile3 term_ai 1 = 1" "dict_get profile3 term_ux 1 = 1" "dict_get profile3 term_db 1 = 1"
  "dict_get keywords3 term_ai 1 = float_0_2" "dict_get keywords3 term_ux 1 = float_0_3"
  "dict_get keywords3 term_db 1 = float_0_1"
  "dict_get keywords3_rotated term_ai 1 = float_0_2" "dict_get keywords3_rotated term_ux 1 = float_0_3"
  "dict_get keywords3_rotated term_db 1 = float_0_1"
  "get_idf_weight term_ai = 1" "get_idf_weight term_ux = 1" "get_idf_weight term_db = 1"
  by (simp_all add: dict_get_def profile3_def keywords3_def keywords3_rotated_def eval_terms
      get_idf_weight_def)

lemma float_sum_first:
  "fst (ct_loop_float [term_ai, term_ux, term_db] profile3 keywords3)
     = 5404319552844595 / 9007199254740992"
  by (simp add: ct_loop_float_def ct_step_float_def lookups3 fl_0_2 fl_0_3 fl_0_1
      add_0_2_0_3 add_0_5_0_1)

lemma float_sum_second:
  "fst (ct_loop_float [term_ux, term_db, term_ai] profile3 keywords3_rotated)
     = 1351079888211149 / 2251799813685248"
  by (simp add: ct_loop_float_def ct_step_float_def lookups3 fl_0_2 fl_0_3 fl_0_1
      add_0_3_0_1 add_0_4_0_2)

text \<open>
  The statement of C8 fails on the float sum: with the profile \<open>{"ai": 1.0, "ux": 1.0,
  "db": 1.0}\<close> and the course keywords \<open>{"ai": 0.2, "ux": 0.3, "db": 0.1}\<close>, the sum taken
  in the order ai, ux, db is \<open>0.6\<close>, and for the course mapping with its entries reordered
  the sum taken in the order ux, db, ai is \<open>0.6000000000000001\<close>. Both orders enumerate
  the same set of common terms; which of them Python takes depends on the hashes of the
  strings and on the order in which the set was filled.
\<close>

theorem ct_score_order_counterexample:
  "mset keywords3_rotated = mset keywords3
   \<and> enumerates [term_ai, term_ux, term_db] (filtered_ct profile3 keywords3)
   \<and> enumerates [term_ux, term_db, term_ai] (filtered_ct profile3 keywords3_rotated)
   \<and> fst (ct_loop_float [term_ai, term_ux, term_db] profile3 keywords3)
       = 5404319552844595 / 9007199254740992
   \<and> fst (ct_loop_float [term_ux, term_db, term_ai] profile3 keywords3_rotated)
       = 5404319552844596 / 9007199254740992
   \<and> fst (ct_loop_float [term_ux, term_db, term_ai] profile3 keywords3_rotated)
       \<noteq> fst (ct_loop_float [term_ai, term_ux, term_db] profile3 keywords3)"
  by (simp add: float_sum_first float_sum_second filtered3 enumerates_def)
     (auto simp: keywords3_def keywords3_rotated_def eval_terms add_mset_commute)

lemma dict_reorder:
  assumes "distinct (dict_keys d)" "mset d' = mset d"
  shows "distinct (dict_keys d')" "set (dict_keys d') = set (dict_keys d)" "dict_get d' = dict_get d"
proof -
  have m: "mset (map fst d') = mset (map fst d)" using assms(2) by simp
  show d': "distinct (dict_keys d')"
    using assms(1) m unfolding dict_keys_def by (metis mset_eq_imp_distinct_iff)
  show "set (dict_keys d') = set (dict_keys d)"
    using m unfolding dict_keys_def by (metis mset_eq_setD)
  have "set d' = set d" using assms(2) by (rule mset_eq_setD)
  then have "map_of d' = map_of d"
    using assms(1) d' unfolding dict_keys_def by (simp add: map_of_inject_set)
  then show "dict_get d' = dict_get d" by (intro ext) (simp add: dict_get_def)
qed

text \<open>
  C8, amended. For every profile and every course keyword mapping (dicts: no key twice),
  reordering the entries of either changes neither the set of common terms, which is the
  intersection of the two key sets minus the stopwords, nor the contribution of any term
  to the sum; so for one and the same order of enumeration of that set the common-term
  score, a float sum taken in that order, is the same before and after the reordering.
\<close>

theorem ct_score_reorder:
  assumes "distinct (dict_keys student_dict)" and "distinct (dict_keys course_keywords)"
    and "mset student_dict' = mset student_dict"
    and "mset course_keywords' = mset course_keywords"
  shows "set (filtered_ct student_dict' course_keywords')
           = (set (dict_keys student_dict) \<inter> set (dict_keys course_keywords)) - STOPWORDS
       \<and> set (filtered_ct student_dict' course_keywords')
           = set (filtered_ct student_dict course_keywords)
       \<and> enumerates order (filtered_ct student_dict' course_keywords')
           = enumerates order (filtered_ct student_dict course_keywords)
       \<and> ct_step_float student_dict' course_keywords' = ct_step_float student_dict course_keywords
       \<and> ct_loop_float order student_dict' course_keywords'
           = ct_loop_float order student_dict course_keywords"
proof -
  note p = dict_reorder [OF assms(1) assms(3)]
  note c = dict_reorder [OF assms(2) assms(4)]
  have S: "set (filtered_ct sd ck) = (set (dict_keys sd) \<inter> set (dict_keys ck)) - STOPWORDS"
    for sd ck :: profile
    by (auto simp: filtered_ct_def dict_has_def)
  have F: "set (filtered_ct student_dict' course_keywords')
             = (set (dict_keys student_dict) \<inter> set (dict_keys course_keywords)) - STOPWORDS"
    by (simp only: S p(2) c(2))
  have E: "set (filtered_ct student_dict' course_keywords')
             = set (filtered_ct student_dict course_keywords)"
    by (simp only: S p(2) c(2))
  have T: "ct_step_float student_dict' course_keywords' = ct_step_float student_dict course_keywords"
    by (intro ext) (simp add: ct_step_float_def p(3) c(3))
  have L: "ct_loop_float order student_dict' course_keywords'
             = ct_loop_float order student_dict course_keywords"
    by (simp add: ct_loop_float_def T)
  from F E T L show ?thesis by (simp add: enumerates_def)
qed

theorem ct_score_reorder_witness:
  "ct_loop_float [term_ai, term_ux, term_db] profile3 keywords3_rotated
     = ct_loop_float [term_ai, term_ux, term_db] profile3 keywords3
   \<and> fst (ct_loop_float [term_ai, term_ux, term_db] profile3 keywords3)
       = 5404319552844595 / 9007199254740992
   \<and> set (filtered_ct profile3 keywords3_rotated) = {term_ai, term_ux, term_db}"
proof -
  have d1: "distinct (dict_keys profile3)" and d2: "distinct (dict_keys keywords3)"
    by (simp_all add: dict_keys_def profile3_def keywords3_def eval_terms)
  have m1: "mset profile3 = mset profile3" by simp
  have m2: "mset keywords3_rotated = mset keywords3"
    by (simp add: keywords3_def keywords3_rotated_def add_mset_commute)
  note t = ct_score_reorder [OF d1 d2 m1 m2, of "[term_ai, term_ux, term_db]"]
  from t have a: "ct_loop_float [term_ai, term_ux, term_db] profile3 keywords3_rotated
     = ct_loop_float [term_ai, term_ux, term_db] profile3 keywords3" by blast
  from t have b: "set (filtered_ct profile3 keywords3_rotated) = set (filtered_ct profile3 keywords3)"
    by blast
  from a float_sum_first b show ?thesis by (simp add: filtered3)
qed

section \<open>The propagated score\<close>

lemma arrow_in_annotate: "ARROW \<in> set (annotate e s)"
  by (simp add: annotate_def ARROW_def)

lemma matches_inv_snoc: "matches_inv cts ms \<Longrightarrow> matches_inv cts (ms @ [annotate e s])"
  by (auto simp: matches_inv_def arrow_in_annotate)

lemma matches_inv_mem:
  "matches_inv cts ms \<Longrightarrow> ARROW \<notin> set e \<Longrightarrow> e \<in> set ms \<longleftrightarrow> e \<in> set cts"
  by (auto simp: matches_inv_def)

text \<open>
  The inner loop over the expanded terms: as long as no course keyword contains the
  arrow, a term that is a course keyword is in the match list only as a common-term match.
\<close>

lemma wp_inner_fold:
  assumes "\<forall>k \<in> set (dict_keys ck). ARROW \<notin> set k" and "matches_inv cts ms"
  shows "fst (fold (wp_inner_step ck s w) es (a, ms))
           = a + sum_list (map (\<lambda>e. w * 0.8 * dict_get ck e 0)
                   (filter (\<lambda>e. dict_has ck e \<and> e \<notin> STOPWORDS \<and> e \<notin> set cts) es))
       \<and> matches_inv cts (snd (fold (wp_inner_step ck s w) es (a, ms)))"
  using assms(2)
proof (induction es arbitrary: a ms)
  case Nil
  then show ?case by simp
next
  case (Cons e es)
  show ?case
  proof (cases "dict_has ck e \<and> e \<notin> STOPWORDS \<and> e \<notin> set cts")
    case True
    then have "ARROW \<notin> set e" using assms(1) by (auto simp: dict_has_def)
    then have nm: "e \<notin> set ms" using matches_inv_mem [OF Cons.prems] True by simp
    have g: "dict_get ck e 1 = dict_get ck e 0"
      using True
      by (auto simp: dict_has_def dict_keys_def dict_get_def map_of_eq_None_iff
          split: option.splits)
    have step: "wp_inner_step ck s w e (a, ms)
                  = (a + w * 0.8 * dict_get ck e 0, ms @ [annotate e s])"
      using True nm g by (simp add: wp_inner_step_def)
    show ?thesis
      using Cons.IH [OF matches_inv_snoc [OF Cons.prems]] True
      by (simp add: step)
  next
    case False
    have "e \<in> set ms" if "e \<in> set cts" using that Cons.prems by (auto simp: matches_inv_def)
    then have step: "wp_inner_step ck s w e (a, ms) = (a, ms)"
      using False by (auto simp: wp_inner_step_def)
    have flt: "filter (\<lambda>e. dict_has ck e \<and> e \<notin> STOPWORDS \<and> e \<notin> set cts) (e # es)
        = filter (\<lambda>e. dict_has ck e \<and> e \<notin> STOPWORDS \<and> e \<notin> set cts) es"
      using False by simp
    show ?thesis using Cons.IH [OF Cons.prems] by (simp only: flt fold_simps step)
  qed
qed

text \<open>The outer loop over the selected terms, from any score and any state of the cache.\<close>

lemma wp_outer_fold:
  assumes "\<forall>k \<in> set (dict_keys ck). ARROW \<notin> set k" and "distinct (dict_keys p)"
    and "set ts \<subseteq> set p" and "matches_inv (filtered_ct p ck) ms"
  shows "fst (fst (fold (wp_step llm ck) ts ((a, ms), self)))
           = a + wp_sum llm self p ck (filter (\<lambda>st. fst st \<notin> STOPWORDS) ts)"
  using assms(3,4)
proof (induction ts arbitrary: a ms self)
  case Nil
  then show ?case by (simp add: wp_sum_def)
next
  case (Cons st ts)
  obtain s w where st: "st = (s, w)" by (cases st)
  have sub: "set ts \<subseteq> set p" using Cons.prems(1) by simp
  show ?case
  proof (cases "s \<in> STOPWORDS")
    case True
    then have "wp_step llm ck st ((a, ms), self) = ((a, ms), self)"
      by (simp add: wp_step_def st)
    then show ?thesis using Cons.IH [OF sub Cons.prems(2)] True st by simp
  next
    case False
    obtain es self' where ex: "expand_keyword_with_gemini llm self s = (es, self')"
      by (cases "expand_keyword_with_gemini llm self s")
    obtain a' ms' where inner: "fold (wp_inner_step ck s w) es (a, ms) = (a', ms')"
      by (cases "fold (wp_inner_step ck s w) es (a, ms)")
    from wp_inner_fold [OF assms(1) Cons.prems(2), of s w es a]
    have a': "a' = a + sum_list (map (\<lambda>e. w * 0.8 * dict_get ck e 0)
                   (filter (\<lambda>e. dict_has ck e \<and> e \<notin> STOPWORDS
                                 \<and> e \<notin> set (filtered_ct p ck)) es))"
      and inv': "matches_inv (filtered_ct p ck) ms'"
      by (simp_all add: inner)
    have "(s, w) \<in> set p" using Cons.prems(1) st by simp
    then have w: "dict_get p s 0 = w" using assms(2) by (rule dict_get_mem [rotated])
    have tm: "wp_term p ck (st, es) = a' - a"
      by (simp add: wp_term_def st w a')
    have step: "wp_step llm ck st ((a, ms), self) = ((a', ms'), self')"
      using False by (simp add: wp_step_def st ex inner)
    have sm: "wp_sum llm self p ck (filter (\<lambda>st. fst st \<notin> STOPWORDS) (st # ts))
             = wp_term p ck (st, es)
               + wp_sum llm self' p ck (filter (\<lambda>st. fst st \<notin> STOPWORDS) ts)"
      using False by (simp add: wp_sum_def st ex)
    have "fst (fst (fold (wp_step llm ck) (st # ts) ((a, ms), self)))
            = fst (fst (fold (wp_step llm ck) ts ((a', ms'), self')))"
      by (simp add: step)
    also have "\<dots> = a' + wp_sum llm self' p ck (filter (\<lambda>st. fst st \<notin> STOPWORDS) ts)"
      by (rule Cons.IH [OF sub inv'])
    also have "\<dots> = a + wp_sum llm self p ck (filter (\<lambda>st. fst st \<notin> STOPWORDS) (st # ts))"
      unfolding sm tm by simp
    finally show ?thesis .
  qed
qed

text \<open>
  \<open>profile6\<close> is the profile built, without a graph, from the interest "analysis" (a
  stopword), a major, a double major and three history courses.
\<close>

lemma profile6_built:
  "get_keywords_from_input None [97] [98] [[99], [100], marketing] (Some analysis_stopword)
     = profile6"
  by (simp add: get_keywords_from_input_def input_items_of_def seed_interest_def profile6_def
      eval_strings)

lemma sorted_profile6: "sort_key (\<lambda>x. - snd x) profile6 = profile6"
  by (simp add: profile6_def)

lemma code_wp_profile6: "wp_score_of brand_llm fresh_recommender profile6 [(brand, 1)] = 0"
  by (simp add: wp_score_of_def wp_loop_def sorted_student_terms_def sorted_profile6 ct_matches)
     (simp add: profile6_def filtered_ct_def wp_step_def wp_inner_step_def eval_strings eval_dict
        eval_expand)

lemma claimed_wp_profile6:
  "wp_sum brand_llm fresh_recommender profile6 [(brand, 1)] (top5_excluding_stopwords profile6)
     = 0.8"
  by (simp add: wp_sum_def top5_excluding_stopwords_def sorted_profile6)
     (simp add: profile6_def wp_term_def filtered_ct_def eval_strings eval_dict eval_expand)

text \<open>
  The statement of C1 fails when a stopword is among the five heaviest profile terms: the
  source takes the five heaviest terms first and skips the stopwords among them, so in
  \<open>profile6\<close> the sixth term \<open>"marketing"\<close>, the fifth that is not a stopword, is never
  expanded. With a collaborator that expands \<open>"marketing"\<close> to \<open>"brand"\<close>, a keyword of
  the course, the propagated score is 0, and the sum over the top 5 terms with stopwords
  excluded is 0.8.
\<close>

theorem wp_score_counterexample:
  "wp_score_of brand_llm fresh_recommender profile6 [(brand, 1)] = 0
   \<and> wp_sum brand_llm fresh_recommender profile6 [(brand, 1)] (top5_excluding_stopwords profile6)
       = 0.8
   \<and> wp_score_of brand_llm fresh_recommender profile6 [(brand, 1)]
       \<noteq> wp_sum brand_llm fresh_recommender profile6 [(brand, 1)]
           (top5_excluding_stopwords profile6)"
  by (simp add: code_wp_profile6 claimed_wp_profile6)

text \<open>
  An expanded term that is itself an annotation recorded earlier in the same call is
  skipped, although it is a course keyword and is no common-term match: the match list
  holds the common-term matches and the annotations alike. This needs a course keyword
  that contains the arrow.
\<close>

lemma annotation_collision:
  "wp_score_of echo_llm fresh_recommender [(marketing, 1)]
       [(brand, 1), (annotate brand marketing, 1)] = 0.8
   \<and> wp_sum echo_llm fresh_recommender [(marketing, 1)]
       [(brand, 1), (annotate brand marketing, 1)] (top5_then_skip_stopwords [(marketing, 1)])
       = 1.6"
  by (simp add: wp_score_of_def wp_loop_def sorted_student_terms_def ct_matches wp_sum_def
      top5_then_skip_stopwords_def wp_term_def filtered_ct_def wp_step_def wp_inner_step_def
      annotate_def echo_llm_def expand_keyword_with_gemini_def fresh_recommender_def Let_def
      eval_strings eval_dict)

text \<open>
  C1, amended. For every profile (a dict: no key twice) and every course keyword mapping
  none of whose keys contains the arrow of an annotation, the propagated score equals the
  sum, over the five heaviest profile terms with the stopwords among them skipped, of
  \<open>profile[s] * 0.8 * courseKeywords[e]\<close> for each term \<open>e\<close> that \<open>expand\<close> returns for
  \<open>s\<close> and that is a course keyword, is not a stopword and is not a common-term match.
\<close>

theorem wp_score_is_sum:
  assumes "distinct (dict_keys student_dict)"
    and "\<forall>k \<in> set (dict_keys course_keywords). ARROW \<notin> set k"
  shows "wp_score_of llm self student_dict course_keywords
           = wp_sum llm self student_dict course_keywords (top5_then_skip_stopwords student_dict)"
proof -
  have sub: "set (sorted_student_terms student_dict) \<subseteq> set student_dict"
    using set_take_subset [of 5 "sort_key (\<lambda>x. - snd x) student_dict"]
    by (simp add: sorted_student_terms_def)
  have inv: "matches_inv (filtered_ct student_dict course_keywords)
               (filtered_ct student_dict course_keywords)"
    by (simp add: matches_inv_def)
  show ?thesis
    using wp_outer_fold [OF assms(2) assms(1) sub inv, of llm 0 self]
    by (simp add: wp_score_of_def wp_loop_def ct_matches top5_then_skip_stopwords_def
        sorted_student_terms_def)
qed

theorem wp_score_is_sum_witness:
  "wp_score_of brand_llm fresh_recommender [(marketing, 1)] [(brand, 1)]
     = wp_sum brand_llm fresh_recommender [(marketing, 1)] [(brand, 1)]
         (top5_then_skip_stopwords [(marketing, 1)])
   \<and> wp_sum brand_llm fresh_recommender [(marketing, 1)] [(brand, 1)]
         (top5_then_skip_stopwords [(marketing, 1)]) = 0.8"
proof -
  have d: "distinct (dict_keys [(marketing, 1::real)])" by (simp add: dict_keys_def)
  have a: "\<forall>k \<in> set (dict_keys [(brand, 1::real)]). ARROW \<notin> set k"
    by (simp add: dict_keys_def brand_def ARROW_def)
  have v: "wp_sum brand_llm fresh_recommender [(marketing, 1)] [(brand, 1)]
         (top5_then_skip_stopwords [(marketing, 1)]) = 0.8"
    by (simp add: wp_sum_def top5_then_skip_stopwords_def wp_term_def filtered_ct_def
        eval_strings eval_dict eval_expand)
  show ?thesis using wp_score_is_sum [OF d a, of brand_llm fresh_recommender] v by simp
qed

end
